theory Spec2Isabelle
  imports Main "HOL-Library.Word"
begin

section \<open>Python values, exceptions and the objects the tools receive\<close>

text \<open>
  The tools of \<^verbatim>\<open>langchain_camb\<close> inspect objects returned by the CAMB AI client with
  \<^verbatim>\<open>hasattr\<close>/\<^verbatim>\<open>getattr\<close>, test them for truth and format them into messages.
  A field of such an object is modelled as a \<open>pyval\<close>: \<^verbatim>\<open>None\<close>, a bool, an unbounded
  int or a string. An attribute that the object does not have is \<open>None\<close> of the option
  type around it. Floats are kept abstract (a type variable \<open>'f\<close>), see \<open>runtime\<close>.
\<close>

datatype pyval = PNone | PBool bool | PInt int | PStr string

text \<open>Python's truth test (\<^verbatim>\<open>if x:\<close>, \<^verbatim>\<open>x or y\<close>).\<close>

fun truthy :: "pyval \<Rightarrow> bool" where
  "truthy PNone = False"
| "truthy (PBool b) = b"
| "truthy (PInt i) = (i \<noteq> 0)"
| "truthy (PStr s) = (s \<noteq> [])"

text \<open>\<^verbatim>\<open>x or y\<close>: the first operand when it is true, the second otherwise.\<close>

definition py_or :: "pyval \<Rightarrow> pyval \<Rightarrow> pyval" where
  "py_or x y = (if truthy x then x else y)"

text \<open>\<^verbatim>\<open>str(n)\<close> of an int: decimal digits, with a minus sign below zero.\<close>

function str_nat :: "nat \<Rightarrow> string" where
  "str_nat n = (if n < 10 then [''0123456789'' ! n]
                else str_nat (n div 10) @ [''0123456789'' ! (n mod 10)])"
  by pat_completeness auto
termination
  by (relation "measure id") auto

declare str_nat.simps [simp del]

definition str_int :: "int \<Rightarrow> string" where
  "str_int i = (if i < 0 then CHR ''-'' # str_nat (nat (- i)) else str_nat (nat i))"

text \<open>\<^verbatim>\<open>str(x)\<close>, which is also what an f-string writes for \<^verbatim>\<open>{x}\<close>.\<close>

fun py_str :: "pyval \<Rightarrow> string" where
  "py_str PNone = ''None''"
| "py_str (PBool b) = (if b then ''True'' else ''False'')"
| "py_str (PInt i) = str_int i"
| "py_str (PStr s) = s"

text \<open>
  The exceptions that leave the modelled functions. \<open>ApiError\<close> is the client's
  \<^verbatim>\<open>camb.core.api_error.ApiError\<close> with its \<^verbatim>\<open>status_code\<close> and \<^verbatim>\<open>body\<close>;
  \<open>StructError\<close> is \<^verbatim>\<open>struct.error\<close>; \<open>OtherError\<close> stands for any other exception
  raised by a collaborator (the client, the transport, the delay primitive).
\<close>

datatype exn =
    RuntimeError string
  | TimeoutError string
  | ApiError "int option" pyval
  | StructError string
  | TypeError string
  | ValueError string
  | OtherError string

text \<open>
  The \<^verbatim>\<open>message\<close> attribute of a status is either a dict from strings to values or a
  plain value.
\<close>

datatype message_val = MDict "(string \<times> pyval) list" | MVal pyval

text \<open>
  A task status as the pollers and the resolver see it: the four attributes they read.
  \<open>None\<close> means that the object has no such attribute.
\<close>

record task_status =
  status :: "pyval option"
  error :: "pyval option"
  run_id :: "pyval option"
  message :: "message_val option"

section \<open>The base tool: configuration and the two pollers\<close>

text \<open>
  The fields of \<^verbatim>\<open>CambBaseTool\<close> that the modelled methods read. \<open>wrapper_base_url\<close> is
  \<^verbatim>\<open>self.sync_client._client_wrapper.base_url\<close>, \<open>None\<close> when the client has no such
  wrapper or the wrapper no such attribute.
\<close>

record 'f camb_base_tool =
  api_key :: string
  wrapper_base_url :: "string option"
  max_poll_attempts :: int
  poll_interval :: 'f

text \<open>
  What the pollers take from the Python runtime: the two delay primitives
  (\<^verbatim>\<open>time.sleep\<close> and \<^verbatim>\<open>asyncio.sleep\<close>), which act on the world \<open>'w\<close> and may raise,
  the product of an int and a float, and \<^verbatim>\<open>str\<close> of a float.
\<close>

record ('f, 'w) runtime =
  time_sleep :: "'f \<Rightarrow> 'w \<Rightarrow> exn option \<times> 'w"
  asyncio_sleep :: "'f \<Rightarrow> 'w \<Rightarrow> exn option \<times> 'w"
  int_mul_float :: "int \<Rightarrow> 'f \<Rightarrow> 'f"
  str_float :: "'f \<Rightarrow> string"

text \<open>
  A status fetcher is called with the task id and the \<^verbatim>\<open>run_id\<close> keyword; it acts on the
  world and returns a status or raises.
\<close>

type_synonym 'w status_fn = "string \<Rightarrow> int option \<Rightarrow> 'w \<Rightarrow> (exn + task_status) \<times> 'w"

text \<open>
  The pollers keep no log; the model adds one, so that fetches and delays can be counted:
  every call of the fetcher and every call of the delay primitive appends an event.
\<close>

datatype 'f event = Fetched string "int option" | Slept 'f

text \<open>
  The \<^verbatim>\<open>for attempt in range(self.max_poll_attempts)\<close> loop of \<^verbatim>\<open>_poll_task_status\<close>,
  with the number of attempts still to make as the recursion argument. \<open>Some r\<close> is a
  return or a raise from inside the loop, \<open>None\<close> is the loop running to its end.
\<close>

fun poll_loop :: "('f, 'w) runtime \<Rightarrow> 'w status_fn \<Rightarrow> string \<Rightarrow> int option \<Rightarrow> 'f \<Rightarrow> nat
    \<Rightarrow> 'w \<Rightarrow> 'f event list \<Rightarrow> (exn + task_status) option \<times> 'w \<times> 'f event list" where
  "poll_loop rt get_status_fn task_id rid d 0 w tr = (None, w, tr)"
| "poll_loop rt get_status_fn task_id rid d (Suc m) w tr =
     (case get_status_fn task_id rid w of
        (Inl e, w1) \<Rightarrow> (Some (Inl e), w1, tr @ [Fetched task_id rid])
      | (Inr st, w1) \<Rightarrow>
          (let verdict =
             (case status st of
                None \<Rightarrow> None
              | Some status_value \<Rightarrow>
                  if status_value \<in> set [PStr ''completed'', PStr ''SUCCESS''] then Some (Inr st)
                  else if status_value \<in> set [PStr ''failed'', PStr ''FAILED'', PStr ''error'']
                  then Some (Inl (RuntimeError (''Task failed: '' @
                         py_str (case error st of None \<Rightarrow> PStr ''Unknown error'' | Some x \<Rightarrow> x))))
                  else None)
           in case verdict of
                Some r \<Rightarrow> (Some r, w1, tr @ [Fetched task_id rid])
              | None \<Rightarrow>
                  (case asyncio_sleep rt d w1 of
                     (Some e, w2) \<Rightarrow> (Some (Inl e), w2, tr @ [Fetched task_id rid, Slept d])
                   | (None, w2) \<Rightarrow>
                       poll_loop rt get_status_fn task_id rid d m w2
                         (tr @ [Fetched task_id rid, Slept d]))))"

definition timeout_message :: "('f, 'w) runtime \<Rightarrow> 'f camb_base_tool \<Rightarrow> string \<Rightarrow> string" where
  "timeout_message rt self task_id =
     ''Task '' @ task_id @ '' did not complete within '' @
     str_float rt (int_mul_float rt (max_poll_attempts self) (poll_interval self)) @ '' seconds''"

definition poll_task_status :: "('f, 'w) runtime \<Rightarrow> 'f camb_base_tool \<Rightarrow> 'w status_fn \<Rightarrow> string
    \<Rightarrow> int option \<Rightarrow> 'w \<Rightarrow> (exn + task_status) \<times> 'w \<times> 'f event list" where
  "poll_task_status rt self get_status_fn task_id rid w =
     (case poll_loop rt get_status_fn task_id rid (poll_interval self)
             (nat (max_poll_attempts self)) w [] of
        (Some r, w', tr) \<Rightarrow> (r, w', tr)
      | (None, w', tr) \<Rightarrow> (Inl (TimeoutError (timeout_message rt self task_id)), w', tr))"

text \<open>The same for \<^verbatim>\<open>_poll_task_status_sync\<close>, which delays with \<^verbatim>\<open>time.sleep\<close>.\<close>

fun poll_loop_sync :: "('f, 'w) runtime \<Rightarrow> 'w status_fn \<Rightarrow> string \<Rightarrow> int option \<Rightarrow> 'f \<Rightarrow> nat
    \<Rightarrow> 'w \<Rightarrow> 'f event list \<Rightarrow> (exn + task_status) option \<times> 'w \<times> 'f event list" where
  "poll_loop_sync rt get_status_fn task_id rid d 0 w tr = (None, w, tr)"
| "poll_loop_sync rt get_status_fn task_id rid d (Suc m) w tr =
     (case get_status_fn task_id rid w of
        (Inl e, w1) \<Rightarrow> (Some (Inl e), w1, tr @ [Fetched task_id rid])
      | (Inr st, w1) \<Rightarrow>
          (let verdict =
             (case status st of
                None \<Rightarrow> None
              | Some status_value \<Rightarrow>
                  if status_value \<in> set [PStr ''completed'', PStr ''SUCCESS''] then Some (Inr st)
                  else if status_value \<in> set [PStr ''failed'', PStr ''FAILED'', PStr ''error'']
                  then Some (Inl (RuntimeError (''Task failed: '' @
                         py_str (case error st of None \<Rightarrow> PStr ''Unknown error'' | Some x \<Rightarrow> x))))
                  else None)
           in case verdict of
                Some r \<Rightarrow> (Some r, w1, tr @ [Fetched task_id rid])
              | None \<Rightarrow>
                  (case time_sleep rt d w1 of
                     (Some e, w2) \<Rightarrow> (Some (Inl e), w2, tr @ [Fetched task_id rid, Slept d])
                   | (None, w2) \<Rightarrow>
                       poll_loop_sync rt get_status_fn task_id rid d m w2
                         (tr @ [Fetched task_id rid, Slept d]))))"

definition poll_task_status_sync :: "('f, 'w) runtime \<Rightarrow> 'f camb_base_tool \<Rightarrow> 'w status_fn
    \<Rightarrow> string \<Rightarrow> int option \<Rightarrow> 'w \<Rightarrow> (exn + task_status) \<times> 'w \<times> 'f event list" where
  "poll_task_status_sync rt self get_status_fn task_id rid w =
     (case poll_loop_sync rt get_status_fn task_id rid (poll_interval self)
             (nat (max_poll_attempts self)) w [] of
        (Some r, w', tr) \<Rightarrow> (r, w', tr)
      | (None, w', tr) \<Rightarrow> (Inl (TimeoutError (timeout_message rt self task_id)), w', tr))"





subsection \<open>A simulated runtime and scripted fetchers, for running the pollers\<close>

text \<open>
  Delays of whole seconds that return at once, and a world that counts the fetches served.
  \<open>str_float\<close> writes a whole number of seconds the way Python writes the float.
\<close>

definition sim_runtime :: "(int, nat) runtime" where
  "sim_runtime =
     \<lparr>time_sleep = (\<lambda>d w. (None, w)), asyncio_sleep = (\<lambda>d w. (None, w)),
      int_mul_float = (\<lambda>n d. n * d), str_float = (\<lambda>d. str_int d @ ''.0'')\<rparr>"

text \<open>
  The same with the two delay primitives as the standard library has them on a negative
  duration: \<^verbatim>\<open>time.sleep\<close> raises \<^verbatim>\<open>ValueError\<close>, \<^verbatim>\<open>asyncio.sleep\<close> returns at once.
\<close>

definition stdlib_runtime :: "(int, nat) runtime" where
  "stdlib_runtime =
     \<lparr>time_sleep = (\<lambda>d w. if d < 0
                           then (Some (ValueError ''sleep length must be non-negative''), w)
                           else (None, w)),
      asyncio_sleep = (\<lambda>d w. (None, w)),
      int_mul_float = (\<lambda>n d. n * d), str_float = (\<lambda>d. str_int d @ ''.0'')\<rparr>"

text \<open>
  The fetcher that answers its \<open>w\<close>-th call with the \<open>w\<close>-th entry of a script and every
  later call with a default status.
\<close>

definition scripted :: "(exn + task_status) list \<Rightarrow> task_status \<Rightarrow> nat status_fn" where
  "scripted rs dflt task_id rid w = ((if w < length rs then rs ! w else Inr dflt), Suc w)"

definition status_only :: "pyval option \<Rightarrow> task_status" where
  "status_only v = \<lparr>status = v, error = None, run_id = None, message = None\<rparr>"

definition demo_tool :: "int \<Rightarrow> int \<Rightarrow> int camb_base_tool" where
  "demo_tool n d =
     \<lparr>api_key = ''key'', wrapper_base_url = None, max_poll_attempts = n, poll_interval = d\<rparr>"


definition failed_status :: "pyval option \<Rightarrow> task_status" where
  "failed_status e = \<lparr>status = Some (PStr ''failed''), error = e, run_id = None, message = None\<rparr>"

section \<open>The translated-speech tool: resolving and encoding audio\<close>

subsection \<open>Bytes and strings\<close>

type_synonym byte = "8 word"

text \<open>A bytes literal such as \<^verbatim>\<open>b"RIFF"\<close>: the codes of its characters.\<close>

definition bytes_of :: "string \<Rightarrow> byte list" where
  "bytes_of s = map (\<lambda>c. of_nat (of_char c)) s"

text \<open>\<^verbatim>\<open>x.startswith(p)\<close>, for \<^verbatim>\<open>bytes\<close> and for \<^verbatim>\<open>str\<close>.\<close>

fun startswith :: "'a list \<Rightarrow> 'a list \<Rightarrow> bool" where
  "startswith xs [] = True"
| "startswith [] (p # ps) = False"
| "startswith (x # xs) (p # ps) = (x = p \<and> startswith xs ps)"

text \<open>\<^verbatim>\<open>sub in s\<close> for strings: \<open>sub\<close> occurs in \<open>s\<close> as a contiguous run.\<close>

fun contains :: "string \<Rightarrow> string \<Rightarrow> bool" where
  "contains [] sub = (sub = [])"
| "contains (c # cs) sub = (startswith (c # cs) sub \<or> contains cs sub)"

text \<open>
  \<^verbatim>\<open>str.lower()\<close> on the characters an Isabelle string has (codes 0 to 255): the
  letters A to Z and the Latin-1 capitals (codes 192 to 222 without the multiplication
  sign 215) move up by 32, every other character stays.
\<close>

definition lower_char :: "char \<Rightarrow> char" where
  "lower_char c =
     (let n = (of_char c :: nat)
      in if (65 \<le> n \<and> n \<le> 90) \<or> (192 \<le> n \<and> n \<le> 222 \<and> n \<noteq> 215)
         then char_of (n + 32) else c)"

definition lower :: "string \<Rightarrow> string" where
  "lower s = map lower_char s"

subsection \<open>\<^verbatim>\<open>_detect_audio_format\<close>\<close>

definition detect_audio_format :: "byte list \<Rightarrow> string \<Rightarrow> string" where
  "detect_audio_format audio_data content_type =
     (if startswith audio_data (bytes_of ''RIFF'') then ''wav''
      else if startswith audio_data [0xFF, 0xFB] \<or> startswith audio_data [0xFF, 0xFA]
              \<or> startswith audio_data (bytes_of ''ID3'') then ''mp3''
      else if startswith audio_data (bytes_of ''fLaC'') then ''flac''
      else if startswith audio_data (bytes_of ''OggS'') then ''ogg''
      else
        (let content_type = lower content_type
         in if contains content_type ''wav'' \<or> contains content_type ''wave'' then ''wav''
            else if contains content_type ''mpeg'' \<or> contains content_type ''mp3'' then ''mp3''
            else if contains content_type ''flac'' then ''flac''
            else if contains content_type ''ogg'' then ''ogg''
            else ''pcm''))"

subsection \<open>\<^verbatim>\<open>_add_wav_header\<close>\<close>

text \<open>
  \<^verbatim>\<open>struct.pack\<close> with a little-endian format: \<^verbatim>\<open>4s\<close> takes four bytes (a shorter
  value is padded with zero bytes, a longer one cut), \<^verbatim>\<open>I\<close> and \<^verbatim>\<open>H\<close> write an unsigned
  integer on four and two bytes and raise \<^verbatim>\<open>struct.error\<close> for a number out of range.
  Fields are packed from left to right; the first one that fails ends the call. The
  messages are the interpreter's, without the quotation marks around the format letter.
\<close>

datatype field = S4 "byte list" | U32 int | U16 int

text \<open>The \<open>k\<close> low bytes of \<open>n\<close>, least significant first.\<close>

fun le_bytes :: "nat \<Rightarrow> nat \<Rightarrow> byte list" where
  "le_bytes 0 n = []"
| "le_bytes (Suc k) n = of_nat (n mod 256) # le_bytes k (n div 256)"

fun pack_field :: "field \<Rightarrow> exn + byte list" where
  "pack_field (S4 b) = Inr (take 4 (b @ replicate 4 0))"
| "pack_field (U32 v) =
     (if 0 \<le> v \<and> v \<le> 4294967295 then Inr (le_bytes 4 (nat v))
      else Inl (StructError ''I format requires 0 <= number <= 4294967295''))"
| "pack_field (U16 v) =
     (if 0 \<le> v \<and> v \<le> 65535 then Inr (le_bytes 2 (nat v))
      else Inl (StructError ''H format requires 0 <= number <= 65535''))"

fun struct_pack :: "field list \<Rightarrow> exn + byte list" where
  "struct_pack [] = Inr []"
| "struct_pack (f # fs) =
     (case pack_field f of
        Inl e \<Rightarrow> Inl e
      | Inr b \<Rightarrow> (case struct_pack fs of Inl e \<Rightarrow> Inl e | Inr bs \<Rightarrow> Inr (b @ bs)))"

definition add_wav_header :: "byte list \<Rightarrow> exn + byte list" where
  "add_wav_header pcm_data =
     (let sample_rate = (24000 :: int);
          num_channels = (1 :: int);
          bits_per_sample = (16 :: int);
          byte_rate = sample_rate * num_channels * bits_per_sample div 8;
          block_align = num_channels * bits_per_sample div 8;
          data_size = int (length pcm_data)
      in case struct_pack
                [S4 (bytes_of ''RIFF''), U32 (36 + data_size), S4 (bytes_of ''WAVE''),
                 S4 (bytes_of ''fmt ''), U32 16, U16 1, U16 num_channels, U32 sample_rate,
                 U32 byte_rate, U16 block_align, U16 bits_per_sample,
                 S4 (bytes_of ''data''), U32 data_size] of
           Inl e \<Rightarrow> Inl e
         | Inr header \<Rightarrow> Inr (header @ pcm_data))"

text \<open>Reading a little-endian unsigned integer back, to state what a header declares.\<close>

fun le_value :: "byte list \<Rightarrow> nat" where
  "le_value [] = 0"
| "le_value (b # bs) = unat b + 256 * le_value bs"

subsection \<open>\<^verbatim>\<open>_format_output\<close>\<close>

text \<open>\<^verbatim>\<open>base64.b64encode(data).decode("utf-8")\<close>: the standard alphabet, padded with \<open>=\<close>.\<close>

definition b64_char :: "nat \<Rightarrow> char" where
  "b64_char i =
     ''ABCDEFGHIJKLMNOPQRSTUVWXYZabcdefghijklmnopqrstuvwxyz0123456789+/'' ! i"

fun b64encode :: "byte list \<Rightarrow> string" where
  "b64encode [] = []"
| "b64encode [a] =
     [b64_char (unat a div 4), b64_char (unat a mod 4 * 16), CHR ''='', CHR ''='']"
| "b64encode [a, b] =
     [b64_char (unat a div 4), b64_char (unat a mod 4 * 16 + unat b div 16),
      b64_char (unat b mod 16 * 4), CHR ''='']"
| "b64encode (a # b # c # rest) =
     [b64_char (unat a div 4), b64_char (unat a mod 4 * 16 + unat b div 16),
      b64_char (unat b mod 16 * 4 + unat c div 64), b64_char (unat c mod 64)]
     @ b64encode rest"

text \<open>
  The temporary directory: \<^verbatim>\<open>NamedTemporaryFile(suffix=..., delete=False)\<close> creates a
  file with a name not used before that ends in the suffix. The interpreter draws the
  name at random; the model numbers the files.
\<close>

record tmpfs =
  tmp_serial :: nat
  tmp_files :: "(string \<times> byte list) list"

definition named_temporary_file :: "string \<Rightarrow> tmpfs \<Rightarrow> string" where
  "named_temporary_file suffix fs = ''/tmp/tmp'' @ str_nat (tmp_serial fs) @ suffix"

definition format_output :: "byte list \<Rightarrow> string \<Rightarrow> string \<Rightarrow> tmpfs \<Rightarrow> (exn + string) \<times> tmpfs" where
  "format_output audio_data output_format audio_format fs =
     (case (if audio_format = ''pcm'' \<and> audio_data \<noteq> []
            then (case add_wav_header audio_data of
                    Inl e \<Rightarrow> Inl e
                  | Inr wav \<Rightarrow> Inr (wav, ''wav''))
            else Inr (audio_data, audio_format)) of
        Inl e \<Rightarrow> (Inl e, fs)
      | Inr (audio_data, audio_format) \<Rightarrow>
          (let ext_map = [(''wav'', ''.wav''), (''mp3'', ''.mp3''), (''flac'', ''.flac''),
                          (''ogg'', ''.ogg''), (''pcm'', ''.wav'')];
               extension = (case map_of ext_map audio_format of None \<Rightarrow> ''.wav'' | Some e \<Rightarrow> e)
           in if output_format = ''base64'' then (Inr (b64encode audio_data), fs)
              else (let name = named_temporary_file extension fs
                    in (Inr name,
                        \<lparr>tmp_serial = Suc (tmp_serial fs),
                         tmp_files = tmp_files fs @ [(name, audio_data)]\<rparr>))))"

subsection \<open>\<^verbatim>\<open>_get_audio_from_status\<close>\<close>

text \<open>
  An HTTP response as the resolver reads it; \<open>content_type\<close> is the
  \<^verbatim>\<open>content-type\<close> header, \<open>None\<close> when the response has none.
\<close>

record response =
  status_code :: int
  content :: "byte list"
  content_type :: "string option"

text \<open>
  \<^verbatim>\<open>httpx.Client().get(url, headers=...)\<close>: it acts on the world and returns a response or
  raises. The URL is whatever value the resolver hands over.
\<close>

type_synonym 'w http_get = "pyval \<Rightarrow> (string \<times> string) list \<Rightarrow> 'w \<Rightarrow> (exn + response) \<times> 'w"

text \<open>\<^verbatim>\<open>d.get(key)\<close> on a dict: \<^verbatim>\<open>None\<close> for a missing key.\<close>

definition dict_get :: "(string \<times> pyval) list \<Rightarrow> string \<Rightarrow> pyval" where
  "dict_get d k = (case map_of d k of None \<Rightarrow> PNone | Some v \<Rightarrow> v)"

text \<open>The truth test on the \<^verbatim>\<open>message\<close> attribute: an empty dict is false.\<close>

fun message_truthy :: "message_val \<Rightarrow> bool" where
  "message_truthy (MDict d) = (d \<noteq> [])"
| "message_truthy (MVal v) = truthy v"

text \<open>
  The choice of \<^verbatim>\<open>url\<close> in the fallback (the \<^verbatim>\<open>if isinstance(message, dict)\<close> ladder),
  for a message that passed the truth test.
\<close>

fun message_url :: "message_val \<Rightarrow> pyval" where
  "message_url (MDict d) =
     py_or (py_or (dict_get d ''output_url'') (dict_get d ''audio_url'')) (dict_get d ''url'')"
| "message_url (MVal (PStr s)) = (if startswith s ''http'' then PStr s else PNone)"
| "message_url (MVal v) = PNone"

text \<open>The fallback: from \<^verbatim>\<open>message = getattr(status, "message", None)\<close> to the end.\<close>

definition audio_from_message :: "'w http_get \<Rightarrow> task_status \<Rightarrow> 'w
    \<Rightarrow> (exn + byte list \<times> string) \<times> 'w" where
  "audio_from_message http_get st w =
     (case message st of
        None \<Rightarrow> (Inr ([], ''pcm''), w)
      | Some msg \<Rightarrow>
          if message_truthy msg then
            (let url = message_url msg
             in if truthy url then
                  (case http_get url [] w of
                     (Inl e, w1) \<Rightarrow> (Inl e, w1)
                   | (Inr resp, w1) \<Rightarrow>
                       (Inr (content resp,
                             detect_audio_format (content resp)
                               (case content_type resp of None \<Rightarrow> [] | Some t \<Rightarrow> t)), w1))
                else (Inr ([], ''pcm''), w))
          else (Inr ([], ''pcm''), w))"

definition get_audio_from_status :: "'f camb_base_tool \<Rightarrow> 'w http_get \<Rightarrow> task_status \<Rightarrow> 'w
    \<Rightarrow> (exn + byte list \<times> string) \<times> 'w" where
  "get_audio_from_status self http_get st w =
     (let rid = (case run_id st of None \<Rightarrow> PNone | Some v \<Rightarrow> v)
      in if truthy rid then
           (let result_url =
                  (case wrapper_base_url self of
                     Some base \<Rightarrow> base @ ''/tts-result/'' @ py_str rid
                   | None \<Rightarrow> ''https://client.camb.ai/apis/tts-result/'' @ py_str rid)
            in case http_get (PStr result_url) [(''x-api-key'', api_key self)] w of
                 (Inl e, w1) \<Rightarrow> (Inl e, w1)
               | (Inr resp, w1) \<Rightarrow>
                   if status_code resp = 200 then
                     (Inr (content resp,
                           detect_audio_format (content resp)
                             (case content_type resp of None \<Rightarrow> [] | Some t \<Rightarrow> t)), w1)
                   else audio_from_message http_get st w1)
         else audio_from_message http_get st w)"

text \<open>
  A transport for running the resolver: a table of URLs and their responses (404 for any
  other URL, \<^verbatim>\<open>TypeError\<close> for a URL that is not a string); the world is the list of the
  requests made.
\<close>

definition canned_get :: "(string \<times> response) list \<Rightarrow> (pyval \<times> (string \<times> string) list) list http_get" where
  "canned_get table url headers log =
     ((case url of
         PStr u \<Rightarrow>
           (case map_of table u of
              Some r \<Rightarrow> Inr r
            | None \<Rightarrow> Inr \<lparr>status_code = 404, content = [], content_type = None\<rparr>)
       | _ \<Rightarrow> Inl (TypeError ''Invalid type for url'')),
      log @ [(url, headers)])"

text \<open>A successful status that carries only a \<^verbatim>\<open>message\<close>, and two audio files on a server.\<close>

definition message_status :: "message_val \<Rightarrow> task_status" where
  "message_status m =
     \<lparr>status = Some (PStr ''SUCCESS''), error = None, run_id = None, message = Some m\<rparr>"

definition cdn :: "(string \<times> response) list" where
  "cdn = [(''https://cdn.example/out.mp3'',
             \<lparr>status_code = 200, content = bytes_of ''ID3'', content_type = Some ''audio/mpeg''\<rparr>),
          (''https://cdn.example/audio.wav'',
             \<lparr>status_code = 200, content = bytes_of ''RIFF'', content_type = None\<rparr>)]"

section \<open>The translation tool\<close>

text \<open>
  What \<^verbatim>\<open>translation_stream\<close> can return, as far as \<^verbatim>\<open>_extract_text\<close> tells results
  apart. A chunk of a stream has a \<^verbatim>\<open>text\<close> attribute, or is a string, or is neither.
  A result is an iterable that is not a string (its chunks, and the exception its
  iteration ends with, if any), an object with a \<^verbatim>\<open>text\<close> attribute, a string, or any
  other object, given by its \<^verbatim>\<open>str\<close>.
\<close>

datatype chunk = ChunkWithText pyval | ChunkStr string | ChunkOther

datatype translation_result =
    Iterable "chunk list" "exn option"
  | WithText pyval
  | Str string
  | Other string

text \<open>The loop over the chunks: what is appended to \<^verbatim>\<open>chunks\<close>.\<close>

fun collect_chunks :: "chunk list \<Rightarrow> pyval list" where
  "collect_chunks [] = []"
| "collect_chunks (ChunkWithText v # cs) = v # collect_chunks cs"
| "collect_chunks (ChunkStr s # cs) = PStr s # collect_chunks cs"
| "collect_chunks (ChunkOther # cs) = collect_chunks cs"

text \<open>\<^verbatim>\<open>"".join(chunks)\<close>: a \<^verbatim>\<open>TypeError\<close> when an item is not a string.\<close>

fun str_join :: "pyval list \<Rightarrow> exn + string" where
  "str_join [] = Inr []"
| "str_join (PStr s # vs) = (case str_join vs of Inl e \<Rightarrow> Inl e | Inr t \<Rightarrow> Inr (s @ t))"
| "str_join (v # vs) = Inl (TypeError ''sequence item: expected str instance'')"

fun extract_text :: "translation_result \<Rightarrow> exn + pyval" where
  "extract_text (Iterable chunks raised) =
     (case raised of
        Some e \<Rightarrow> Inl e
      | None \<Rightarrow> (case str_join (collect_chunks chunks) of
                   Inl e \<Rightarrow> Inl e
                 | Inr s \<Rightarrow> Inr (PStr s)))"
| "extract_text (WithText v) = Inr v"
| "extract_text (Str s) = Inr (PStr s)"
| "extract_text (Other s) = Inr (PStr s)"

text \<open>
  \<^verbatim>\<open>translation_stream(**kwargs)\<close> of the client: it acts on the world and returns a
  result or raises.
\<close>

type_synonym 'w translation_stream =
  "(string \<times> pyval) list \<Rightarrow> 'w \<Rightarrow> (exn + translation_result) \<times> 'w"

text \<open>The keyword arguments both methods build; \<^verbatim>\<open>formality\<close> is added when it is true.\<close>

definition translation_kwargs :: "string \<Rightarrow> int \<Rightarrow> int \<Rightarrow> pyval \<Rightarrow> (string \<times> pyval) list" where
  "translation_kwargs text source_language target_language formality =
     [(''text'', PStr text), (''source_language'', PInt source_language),
      (''target_language'', PInt target_language)]
     @ (if truthy formality then [(''formality'', formality)] else [])"

text \<open>
  \<^verbatim>\<open>CambTranslationTool._run\<close>: the \<^verbatim>\<open>try\<close> body (the call and \<^verbatim>\<open>_extract_text\<close>), then
  the \<^verbatim>\<open>except ApiError\<close> clause, which turns a status 200 with a body that is true
  into the result and raises every other exception again.
\<close>

definition CambTranslationTool_run :: "'w translation_stream \<Rightarrow> string \<Rightarrow> int \<Rightarrow> int \<Rightarrow> pyval
    \<Rightarrow> 'w \<Rightarrow> (exn + pyval) \<times> 'w" where
  "CambTranslationTool_run sync_translation_stream text source_language target_language
       formality w =
     (let kwargs = translation_kwargs text source_language target_language formality;
          attempt =
            (case sync_translation_stream kwargs w of
               (Inl e, w1) \<Rightarrow> (Inl e, w1)
             | (Inr result, w1) \<Rightarrow> (extract_text result, w1))
      in case attempt of
           (Inl (ApiError code body), w1) \<Rightarrow>
             if code = Some 200 \<and> truthy body then (Inr (PStr (py_str body)), w1)
             else (Inl (ApiError code body), w1)
         | (r, w1) \<Rightarrow> (r, w1))"

text \<open>\<^verbatim>\<open>CambTranslationTool._arun\<close>, on the asynchronous client.\<close>

definition CambTranslationTool_arun :: "'w translation_stream \<Rightarrow> string \<Rightarrow> int \<Rightarrow> int \<Rightarrow> pyval
    \<Rightarrow> 'w \<Rightarrow> (exn + pyval) \<times> 'w" where
  "CambTranslationTool_arun async_translation_stream text source_language target_language
       formality w =
     (let kwargs = translation_kwargs text source_language target_language formality;
          attempt =
            (case async_translation_stream kwargs w of
               (Inl e, w1) \<Rightarrow> (Inl e, w1)
             | (Inr result, w1) \<Rightarrow> (extract_text result, w1))
      in case attempt of
           (Inl (ApiError code body), w1) \<Rightarrow>
             if code = Some 200 \<and> truthy body then (Inr (PStr (py_str body)), w1)
             else (Inl (ApiError code body), w1)
         | (r, w1) \<Rightarrow> (r, w1))"

text \<open>A client whose \<^verbatim>\<open>translation_stream\<close> raises a given exception at every call.\<close>

definition raising_stream :: "exn \<Rightarrow> nat translation_stream" where
  "raising_stream e kwargs w = (Inl e, Suc w)"

section \<open>Properties of the pollers\<close>

subsection \<open>The loop, piece by piece\<close>

text \<open>
  Running \<open>k + m\<close> attempts is running \<open>k\<close> attempts and, when none of them left the loop,
  \<open>m\<close> more from the world and the log they ended in.
\<close>

lemma poll_loop_add:
  "poll_loop rt f tid rid d (k + m) w tr =
     (case poll_loop rt f tid rid d k w tr of
        (None, w', tr') \<Rightarrow> poll_loop rt f tid rid d m w' tr'
      | (Some r, w', tr') \<Rightarrow> (Some r, w', tr'))"
proof (induction k arbitrary: w tr)
  case 0
  show ?case by simp
next
  case (Suc k)
  show ?case
    by (simp add: Suc.IH Let_def split: prod.splits sum.splits option.splits)
qed

lemma poll_loop_sync_add:
  "poll_loop_sync rt f tid rid d (k + m) w tr =
     (case poll_loop_sync rt f tid rid d k w tr of
        (None, w', tr') \<Rightarrow> poll_loop_sync rt f tid rid d m w' tr'
      | (Some r, w', tr') \<Rightarrow> (Some r, w', tr'))"
proof (induction k arbitrary: w tr)
  case 0
  show ?case by simp
next
  case (Suc k)
  show ?case
    by (simp add: Suc.IH Let_def split: prod.splits sum.splits option.splits)
qed





lemma poll_loop_success:
  assumes "f tid rid w = (Inr st, w1)"
    and "status st = Some (PStr ''completed'') \<or> status st = Some (PStr ''SUCCESS'')"
  shows "poll_loop rt f tid rid d (Suc m) w tr = (Some (Inr st), w1, tr @ [Fetched tid rid])"
  using assms by (auto simp: Let_def)

lemma poll_loop_sync_success:
  assumes "f tid rid w = (Inr st, w1)"
    and "status st = Some (PStr ''completed'') \<or> status st = Some (PStr ''SUCCESS'')"
  shows "poll_loop_sync rt f tid rid d (Suc m) w tr = (Some (Inr st), w1, tr @ [Fetched tid rid])"
  using assms by (auto simp: Let_def)

lemma nat_split_attempts: "int k < n \<Longrightarrow> nat n = k + Suc (nat n - Suc k)"
  by arith


lemma poll_loop_failure:
  assumes "f tid rid w = (Inr st, w1)"
    and "status st = Some (PStr ''failed'') \<or> status st = Some (PStr ''FAILED'')
         \<or> status st = Some (PStr ''error'')"
  shows "poll_loop rt f tid rid d (Suc m) w tr =
           (Some (Inl (RuntimeError (''Task failed: '' @
              (case error st of None \<Rightarrow> ''Unknown error'' | Some e \<Rightarrow> py_str e)))),
            w1, tr @ [Fetched tid rid])"
  using assms by (cases "error st") (auto simp: Let_def)

lemma poll_loop_sync_failure:
  assumes "f tid rid w = (Inr st, w1)"
    and "status st = Some (PStr ''failed'') \<or> status st = Some (PStr ''FAILED'')
         \<or> status st = Some (PStr ''error'')"
  shows "poll_loop_sync rt f tid rid d (Suc m) w tr =
           (Some (Inl (RuntimeError (''Task failed: '' @
              (case error st of None \<Rightarrow> ''Unknown error'' | Some e \<Rightarrow> py_str e)))),
            w1, tr @ [Fetched tid rid])"
  using assms by (cases "error st") (auto simp: Let_def)



lemma poll_loops_agree:
  assumes "\<forall>w. time_sleep rt d w = asyncio_sleep rt d w"
  shows "poll_loop_sync rt f tid rid d n w tr = poll_loop rt f tid rid d n w tr"
  using assms
  by (induction n arbitrary: w tr)
     (simp_all add: Let_def split: prod.splits sum.splits option.splits)

lemma str_int_minus_2: "str_int (- 2) = ''-2''"
  by code_simp




subsection \<open>Success\<close>

text \<open>
  C1. A status whose \<^verbatim>\<open>status\<close> field is \<^verbatim>\<open>"completed"\<close> or \<^verbatim>\<open>"SUCCESS"\<close> is returned
  by the inspection that observes it. Whatever number \<open>k\<close> of earlier inspections ran
  without leaving the loop (ending in world \<open>w'\<close> with log \<open>tr\<close>), if the next fetch is
  within the attempt budget and observes such a status, the poller returns that very
  status, the world is the one the fetch left, and the log is \<open>tr\<close> plus that single fetch:
  no further fetch and no delay. This holds for \<^verbatim>\<open>_poll_task_status\<close> and for
  \<^verbatim>\<open>_poll_task_status_sync\<close>.
\<close>

theorem poll_success_returns_at_once:
  "(poll_loop rt f tid rid (poll_interval self) k w [] = (None, w', tr)
      \<and> int k < max_poll_attempts self
      \<and> f tid rid w' = (Inr st, w'')
      \<and> (status st = Some (PStr ''completed'') \<or> status st = Some (PStr ''SUCCESS''))
    \<longrightarrow> poll_task_status rt self f tid rid w = (Inr st, w'', tr @ [Fetched tid rid]))
   \<and>
   (poll_loop_sync rt f tid rid (poll_interval self) k w [] = (None, w', tr)
      \<and> int k < max_poll_attempts self
      \<and> f tid rid w' = (Inr st, w'')
      \<and> (status st = Some (PStr ''completed'') \<or> status st = Some (PStr ''SUCCESS''))
    \<longrightarrow> poll_task_status_sync rt self f tid rid w = (Inr st, w'', tr @ [Fetched tid rid]))"
proof (intro conjI impI)
  assume a: "poll_loop rt f tid rid (poll_interval self) k w [] = (None, w', tr)
      \<and> int k < max_poll_attempts self
      \<and> f tid rid w' = (Inr st, w'')
      \<and> (status st = Some (PStr ''completed'') \<or> status st = Some (PStr ''SUCCESS''))"
  then have n: "nat (max_poll_attempts self) = k + Suc (nat (max_poll_attempts self) - Suc k)"
    by (intro nat_split_attempts) simp
  have "poll_loop rt f tid rid (poll_interval self) (nat (max_poll_attempts self)) w [] =
        (Some (Inr st), w'', tr @ [Fetched tid rid])"
    by (subst n, subst poll_loop_add) (use a in \<open>simp add: poll_loop_success del: poll_loop.simps\<close>)
  then show "poll_task_status rt self f tid rid w = (Inr st, w'', tr @ [Fetched tid rid])"
    by (simp add: poll_task_status_def)
next
  assume a: "poll_loop_sync rt f tid rid (poll_interval self) k w [] = (None, w', tr)
      \<and> int k < max_poll_attempts self
      \<and> f tid rid w' = (Inr st, w'')
      \<and> (status st = Some (PStr ''completed'') \<or> status st = Some (PStr ''SUCCESS''))"
  then have n: "nat (max_poll_attempts self) = k + Suc (nat (max_poll_attempts self) - Suc k)"
    by (intro nat_split_attempts) simp
  have "poll_loop_sync rt f tid rid (poll_interval self) (nat (max_poll_attempts self)) w [] =
        (Some (Inr st), w'', tr @ [Fetched tid rid])"
    by (subst n, subst poll_loop_sync_add) (use a in \<open>simp add: poll_loop_sync_success del: poll_loop_sync.simps\<close>)
  then show "poll_task_status_sync rt self f tid rid w = (Inr st, w'', tr @ [Fetched tid rid])"
    by (simp add: poll_task_status_sync_def)
qed


text \<open>One pending status, then \<^verbatim>\<open>"SUCCESS"\<close> on the second of five attempts.\<close>

theorem poll_success_returns_at_once_witness:
  "poll_loop sim_runtime
      (scripted [Inr (status_only None), Inr (status_only (Some (PStr ''SUCCESS'')))]
         (status_only None)) ''t1'' None 2 1 0 [] = (None, 1, [Fetched ''t1'' None, Slept 2])
   \<and> int 1 < max_poll_attempts (demo_tool 5 2)
   \<and> status (status_only (Some (PStr ''SUCCESS''))) = Some (PStr ''SUCCESS'')
   \<and>
   poll_task_status sim_runtime (demo_tool 5 2)
      (scripted [Inr (status_only None), Inr (status_only (Some (PStr ''SUCCESS'')))]
         (status_only None)) ''t1'' None 0
     = (Inr (status_only (Some (PStr ''SUCCESS''))), 2,
        [Fetched ''t1'' None, Slept 2, Fetched ''t1'' None])
   \<and>
   poll_task_status_sync sim_runtime (demo_tool 5 2)
      (scripted [Inr (status_only None), Inr (status_only (Some (PStr ''SUCCESS'')))]
         (status_only None)) ''t1'' None 0
     = (Inr (status_only (Some (PStr ''SUCCESS''))), 2,
        [Fetched ''t1'' None, Slept 2, Fetched ''t1'' None])"
  using poll_success_returns_at_once
    [of sim_runtime "scripted [Inr (status_only None), Inr (status_only (Some (PStr ''SUCCESS'')))]
         (status_only None)" "''t1''" None "demo_tool 5 2" 1 0 1 "[Fetched ''t1'' None, Slept 2]"
        "status_only (Some (PStr ''SUCCESS''))" 2]
  by (simp add: scripted_def status_only_def demo_tool_def sim_runtime_def Let_def)



subsection \<open>Task failure\<close>

text \<open>
  C2. A status whose \<^verbatim>\<open>status\<close> field is \<^verbatim>\<open>"failed"\<close>, \<^verbatim>\<open>"FAILED"\<close> or \<^verbatim>\<open>"error"\<close>
  makes the inspection that observes it raise \<^verbatim>\<open>RuntimeError\<close>: after any number \<open>k\<close> of
  earlier inspections that stayed in the loop, the poller ends with the log extended by
  that single fetch (no retry, no delay, no further fetch), and the message is
  \<^verbatim>\<open>"Task failed: "\<close> followed by the status's \<^verbatim>\<open>error\<close> attribute, or by
  \<^verbatim>\<open>"Unknown error"\<close> when the status has no such attribute. Both pollers.
\<close>

theorem poll_failure_raises_at_once:
  "(poll_loop rt f tid rid (poll_interval self) k w [] = (None, w', tr)
      \<and> int k < max_poll_attempts self
      \<and> f tid rid w' = (Inr st, w'')
      \<and> (status st = Some (PStr ''failed'') \<or> status st = Some (PStr ''FAILED'')
           \<or> status st = Some (PStr ''error''))
    \<longrightarrow> poll_task_status rt self f tid rid w =
          (Inl (RuntimeError (''Task failed: '' @
             (case error st of None \<Rightarrow> ''Unknown error'' | Some e \<Rightarrow> py_str e))),
           w'', tr @ [Fetched tid rid]))
   \<and>
   (poll_loop_sync rt f tid rid (poll_interval self) k w [] = (None, w', tr)
      \<and> int k < max_poll_attempts self
      \<and> f tid rid w' = (Inr st, w'')
      \<and> (status st = Some (PStr ''failed'') \<or> status st = Some (PStr ''FAILED'')
           \<or> status st = Some (PStr ''error''))
    \<longrightarrow> poll_task_status_sync rt self f tid rid w =
          (Inl (RuntimeError (''Task failed: '' @
             (case error st of None \<Rightarrow> ''Unknown error'' | Some e \<Rightarrow> py_str e))),
           w'', tr @ [Fetched tid rid]))"
proof (intro conjI impI)
  assume a: "poll_loop rt f tid rid (poll_interval self) k w [] = (None, w', tr)
      \<and> int k < max_poll_attempts self
      \<and> f tid rid w' = (Inr st, w'')
      \<and> (status st = Some (PStr ''failed'') \<or> status st = Some (PStr ''FAILED'')
           \<or> status st = Some (PStr ''error''))"
  then have n: "nat (max_poll_attempts self) = k + Suc (nat (max_poll_attempts self) - Suc k)"
    by (intro nat_split_attempts) simp
  from a have step: "poll_loop rt f tid rid (poll_interval self)
        (Suc (nat (max_poll_attempts self) - Suc k)) w' tr =
        (Some (Inl (RuntimeError (''Task failed: '' @
           (case error st of None \<Rightarrow> ''Unknown error'' | Some e \<Rightarrow> py_str e)))),
         w'', tr @ [Fetched tid rid])"
    by (intro poll_loop_failure) simp_all
  have "poll_loop rt f tid rid (poll_interval self) (nat (max_poll_attempts self)) w [] =
        (Some (Inl (RuntimeError (''Task failed: '' @
           (case error st of None \<Rightarrow> ''Unknown error'' | Some e \<Rightarrow> py_str e)))),
         w'', tr @ [Fetched tid rid])"
    by (subst n, subst poll_loop_add) (use a step in \<open>simp del: poll_loop.simps\<close>)
  then show "poll_task_status rt self f tid rid w =
          (Inl (RuntimeError (''Task failed: '' @
             (case error st of None \<Rightarrow> ''Unknown error'' | Some e \<Rightarrow> py_str e))),
           w'', tr @ [Fetched tid rid])"
    by (simp add: poll_task_status_def)
next
  assume a: "poll_loop_sync rt f tid rid (poll_interval self) k w [] = (None, w', tr)
      \<and> int k < max_poll_attempts self
      \<and> f tid rid w' = (Inr st, w'')
      \<and> (status st = Some (PStr ''failed'') \<or> status st = Some (PStr ''FAILED'')
           \<or> status st = Some (PStr ''error''))"
  then have n: "nat (max_poll_attempts self) = k + Suc (nat (max_poll_attempts self) - Suc k)"
    by (intro nat_split_attempts) simp
  from a have step: "poll_loop_sync rt f tid rid (poll_interval self)
        (Suc (nat (max_poll_attempts self) - Suc k)) w' tr =
        (Some (Inl (RuntimeError (''Task failed: '' @
           (case error st of None \<Rightarrow> ''Unknown error'' | Some e \<Rightarrow> py_str e)))),
         w'', tr @ [Fetched tid rid])"
    by (intro poll_loop_sync_failure) simp_all
  have "poll_loop_sync rt f tid rid (poll_interval self) (nat (max_poll_attempts self)) w [] =
        (Some (Inl (RuntimeError (''Task failed: '' @
           (case error st of None \<Rightarrow> ''Unknown error'' | Some e \<Rightarrow> py_str e)))),
         w'', tr @ [Fetched tid rid])"
    by (subst n, subst poll_loop_sync_add) (use a step in \<open>simp del: poll_loop_sync.simps\<close>)
  then show "poll_task_status_sync rt self f tid rid w =
          (Inl (RuntimeError (''Task failed: '' @
             (case error st of None \<Rightarrow> ''Unknown error'' | Some e \<Rightarrow> py_str e))),
           w'', tr @ [Fetched tid rid])"
    by (simp add: poll_task_status_sync_def)
qed



text \<open>
  A failure with an error text on the second attempt, and one without an \<^verbatim>\<open>error\<close>
  attribute on the first.
\<close>

theorem poll_failure_raises_at_once_witness:
  "poll_loop sim_runtime
      (scripted [Inr (status_only None), Inr (failed_status (Some (PStr ''quota exceeded'')))]
         (status_only None)) ''t1'' None 2 1 0 [] = (None, 1, [Fetched ''t1'' None, Slept 2])
   \<and> int 1 < max_poll_attempts (demo_tool 5 2)
   \<and> status (failed_status (Some (PStr ''quota exceeded''))) = Some (PStr ''failed'')
   \<and> poll_task_status sim_runtime (demo_tool 5 2)
      (scripted [Inr (status_only None), Inr (failed_status (Some (PStr ''quota exceeded'')))]
         (status_only None)) ''t1'' None 0
     = (Inl (RuntimeError ''Task failed: quota exceeded''), 2,
        [Fetched ''t1'' None, Slept 2, Fetched ''t1'' None])
   \<and> poll_task_status_sync sim_runtime (demo_tool 5 2)
      (scripted [Inr (failed_status None)] (status_only None)) ''t1'' None 0
     = (Inl (RuntimeError ''Task failed: Unknown error''), 1, [Fetched ''t1'' None])"
  using poll_failure_raises_at_once
    [of sim_runtime "scripted [Inr (status_only None), Inr (failed_status (Some (PStr ''quota exceeded'')))]
         (status_only None)" "''t1''" None "demo_tool 5 2" 1 0 1 "[Fetched ''t1'' None, Slept 2]"
        "failed_status (Some (PStr ''quota exceeded''))" 2]
    poll_failure_raises_at_once
    [of sim_runtime "scripted [Inr (failed_status None)] (status_only None)" "''t1''" None
        "demo_tool 5 2" 0 0 0 "[]" "failed_status None" 1]
  by (simp add: scripted_def status_only_def failed_status_def demo_tool_def sim_runtime_def Let_def)



subsection \<open>Timeout\<close>






subsection \<open>A status without a \<^verbatim>\<open>status\<close> attribute\<close>





subsection \<open>The two pollers\<close>

text \<open>
  C7, as the code has it. The blocking poller and the suspending poller differ in the
  delay primitive only: whenever \<^verbatim>\<open>time.sleep\<close> and \<^verbatim>\<open>asyncio.sleep\<close> behave alike at
  \<^verbatim>\<open>poll_interval\<close> (the same return or exception and the same effect on the world),
  \<^verbatim>\<open>_poll_task_status_sync\<close> and \<^verbatim>\<open>_poll_task_status\<close> agree for every fetcher, task id,
  run id, \<^verbatim>\<open>max_poll_attempts\<close> and world: the same sequence of fetches and delays, the same
  classification, the same result or exception, the same final world. Where the two
  primitives differ, as they do on a negative \<^verbatim>\<open>poll_interval\<close>, so do the pollers.
\<close>

theorem pollers_agree_when_delays_agree:
  "(\<forall>w. time_sleep rt (poll_interval self) w = asyncio_sleep rt (poll_interval self) w)
   \<longrightarrow> poll_task_status_sync rt self f tid rid w = poll_task_status rt self f tid rid w"
  by (simp add: poll_task_status_sync_def poll_task_status_def poll_loops_agree)


text \<open>A runtime whose two delays return at once: the pollers give the same.\<close>

theorem pollers_agree_when_delays_agree_witness:
  "(\<forall>w. time_sleep sim_runtime (poll_interval (demo_tool 5 2)) w
          = asyncio_sleep sim_runtime (poll_interval (demo_tool 5 2)) w)
   \<and> poll_task_status_sync sim_runtime (demo_tool 5 2)
        (scripted [Inr (status_only None), Inr (status_only (Some (PStr ''SUCCESS'')))]
           (status_only None)) ''t1'' None 0
     = poll_task_status sim_runtime (demo_tool 5 2)
        (scripted [Inr (status_only None), Inr (status_only (Some (PStr ''SUCCESS'')))]
           (status_only None)) ''t1'' None 0"
proof -
  have h: "\<forall>w. time_sleep sim_runtime (poll_interval (demo_tool 5 2)) w
          = asyncio_sleep sim_runtime (poll_interval (demo_tool 5 2)) w"
    by (simp add: sim_runtime_def)
  with pollers_agree_when_delays_agree
         [of sim_runtime "demo_tool 5 2"
             "scripted [Inr (status_only None), Inr (status_only (Some (PStr ''SUCCESS'')))]
                (status_only None)" "''t1''" None 0]
  show ?thesis by blast
qed


text \<open>
  C7 as stated, for every \<^verbatim>\<open>poll_interval\<close>, fails: the field is an unconstrained float,
  and at \<open>-1\<close> \<^verbatim>\<open>time.sleep\<close> raises \<^verbatim>\<open>ValueError\<close>, so the blocking poller ends with that
  exception after one fetch, while \<^verbatim>\<open>asyncio.sleep\<close> returns and the suspending poller
  makes both fetches and ends in \<^verbatim>\<open>TimeoutError\<close>.
\<close>

theorem negative_interval_pollers_differ_counterexample:
  "poll_task_status_sync stdlib_runtime (demo_tool 2 (- 1))
      (scripted [] (status_only (Some (PStr ''PENDING'')))) ''t1'' None 0
     = (Inl (ValueError ''sleep length must be non-negative''), 1,
        [Fetched ''t1'' None, Slept (- 1)])
   \<and> poll_task_status stdlib_runtime (demo_tool 2 (- 1))
      (scripted [] (status_only (Some (PStr ''PENDING'')))) ''t1'' None 0
     = (Inl (TimeoutError ''Task t1 did not complete within -2.0 seconds''), 2,
        [Fetched ''t1'' None, Slept (- 1), Fetched ''t1'' None, Slept (- 1)])"
  by (simp add: poll_task_status_sync_def poll_task_status_def timeout_message_def
        stdlib_runtime_def demo_tool_def scripted_def status_only_def Let_def
        numeral_2_eq_2 str_int_minus_2)

section \<open>Properties of the audio encoder\<close>

subsection \<open>Packing the header\<close>

lemma length_le_bytes: "length (le_bytes k n) = k"
  by (induction k arbitrary: n) simp_all

lemma le_value_le_bytes: "le_value (le_bytes k n) = n mod 256 ^ k"
proof (induction k arbitrary: n)
  case 0
  show ?case by simp
next
  case (Suc k)
  have "le_value (le_bytes (Suc k) n) = n mod 256 + 256 * (n div 256 mod 256 ^ k)"
    by (simp add: Suc.IH unat_of_nat)
  also have "\<dots> = n mod 256 ^ Suc k"
    by (simp add: mod_mult2_eq)
  finally show ?case .
qed

lemma le_bytes_2: "le_bytes 2 n = [of_nat (n mod 256), of_nat (n div 256 mod 256)]"
proof -
  have "le_bytes 2 n = le_bytes (Suc (Suc 0)) n"
    by (simp only: numeral_2_eq_2)
  then show ?thesis by simp
qed

lemma le_bytes_4: "le_bytes 4 n =
  [of_nat (n mod 256), of_nat (n div 256 mod 256), of_nat (n div 65536 mod 256),
   of_nat (n div 16777216 mod 256)]"
proof -
  have e: "(4::nat) = Suc (Suc (Suc (Suc 0)))" by simp
  have "le_bytes 4 n = le_bytes (Suc (Suc (Suc (Suc 0)))) n"
    by (simp only: e [symmetric])
  then show ?thesis by (simp add: div_mult2_eq [symmetric])
qed

lemma wav_fixed_fields:
  "struct_pack [S4 (bytes_of ''WAVE''), S4 (bytes_of ''fmt ''), U32 16, U16 1, U16 1, U32 24000,
      U32 (24000 * 1 * 16 div 8), U16 (1 * 16 div 8), U16 16, S4 (bytes_of ''data'')] =
   Inr [87, 65, 86, 69, 102, 109, 116, 32, 16, 0, 0, 0, 1, 0, 1, 0, 192, 93, 0, 0,
        128, 187, 0, 0, 2, 0, 16, 0, 100, 97, 116, 97]"
  by (simp add: bytes_of_def le_bytes_4 le_bytes_2)

lemma struct_pack_append:
  "struct_pack (fs @ gs) =
     (case struct_pack fs of
        Inl e \<Rightarrow> Inl e
      | Inr a \<Rightarrow> (case struct_pack gs of Inl e \<Rightarrow> Inl e | Inr b \<Rightarrow> Inr (a @ b)))"
  by (induction fs) (simp_all split: sum.splits)

lemma add_wav_header_unfold:
  "add_wav_header pcm_data =
     (case struct_pack ([S4 (bytes_of ''RIFF''), U32 (36 + int (length pcm_data))] @
             [S4 (bytes_of ''WAVE''), S4 (bytes_of ''fmt ''), U32 16, U16 1, U16 1, U32 24000,
              U32 (24000 * 1 * 16 div 8), U16 (1 * 16 div 8), U16 16, S4 (bytes_of ''data'')] @
             [U32 (int (length pcm_data))]) of
        Inl e \<Rightarrow> Inl e
      | Inr header \<Rightarrow> Inr (header @ pcm_data))"
  by (simp add: add_wav_header_def Let_def del: struct_pack.simps)

lemma add_wav_header_fits:
  assumes "length pcm_data \<le> 4294967259"
  shows "add_wav_header pcm_data =
     Inr ([82, 73, 70, 70] @ le_bytes 4 (36 + length pcm_data) @
          [87, 65, 86, 69, 102, 109, 116, 32, 16, 0, 0, 0, 1, 0, 1, 0, 192, 93, 0, 0,
           128, 187, 0, 0, 2, 0, 16, 0, 100, 97, 116, 97] @
          le_bytes 4 (length pcm_data) @ pcm_data)"
proof -
  have a: "struct_pack [S4 (bytes_of ''RIFF''), U32 (36 + int (length pcm_data))] =
        Inr ([82, 73, 70, 70] @ le_bytes 4 (36 + length pcm_data))"
    using assms by (simp add: bytes_of_def nat_add_distrib)
  have c: "struct_pack [U32 (int (length pcm_data))] = Inr (le_bytes 4 (length pcm_data))"
    using assms by simp
  show ?thesis
    unfolding add_wav_header_unfold struct_pack_append a c wav_fixed_fields by simp
qed

lemma add_wav_header_too_long:
  assumes "4294967259 < length pcm_data"
  shows "add_wav_header pcm_data =
     Inl (StructError ''I format requires 0 <= number <= 4294967295'')"
proof -
  have a: "struct_pack [S4 (bytes_of ''RIFF''), U32 (36 + int (length pcm_data))] =
        Inl (StructError ''I format requires 0 <= number <= 4294967295'')"
    using assms by simp
  show ?thesis
    unfolding add_wav_header_unfold struct_pack_append a by simp
qed

lemma str_nat_0: "str_nat 0 = ''0''"
  by (simp add: str_nat.simps)

lemma format_output_pcm_nonempty:
  "audio_data \<noteq> [] \<Longrightarrow> add_wav_header audio_data = Inr wav \<Longrightarrow>
   format_output audio_data output_format ''pcm'' fs =
     (if output_format = ''base64'' then (Inr (b64encode wav), fs)
      else (Inr (named_temporary_file ''.wav'' fs),
            \<lparr>tmp_serial = Suc (tmp_serial fs),
             tmp_files = tmp_files fs @ [(named_temporary_file ''.wav'' fs, wav)]\<rparr>))"
  by (simp add: format_output_def Let_def)

lemma format_output_pcm_error:
  "audio_data \<noteq> [] \<Longrightarrow> add_wav_header audio_data = Inl e \<Longrightarrow>
   format_output audio_data output_format ''pcm'' fs = (Inl e, fs)"
  by (simp add: format_output_def)

lemma format_output_pcm_empty:
  "format_output [] output_format ''pcm'' fs =
     (if output_format = ''base64'' then (Inr [], fs)
      else (Inr (named_temporary_file ''.wav'' fs),
            \<lparr>tmp_serial = Suc (tmp_serial fs),
             tmp_files = tmp_files fs @ [(named_temporary_file ''.wav'' fs, [])]\<rparr>))"
  by (simp add: format_output_def Let_def)

lemma b64_two_bytes_wrapped:
  "b64encode ([82, 73, 70, 70, 38, 0, 0, 0, 87, 65, 86, 69, 102, 109, 116, 32, 16, 0, 0, 0,
               1, 0, 1, 0, 192, 93, 0, 0, 128, 187, 0, 0, 2, 0, 16, 0, 100, 97, 116, 97,
               2, 0, 0, 0, 1, 2]) =
   ''UklGRiYAAABXQVZFZm10IBAAAAABAAEAwF0AAIC7AAACABAAZGF0YQIAAAABAg==''"
  by (simp add: b64_char_def)


subsection \<open>The synthesized WAV header\<close>

text \<open>
  C6, as the code has it. For every pcm byte sequence of length \<open>N\<close> up to 4294967259,
  \<^verbatim>\<open>_add_wav_header\<close> returns \<open>N + 44\<close> bytes: a 44-byte header followed by the \<open>N\<close> bytes
  unchanged. The header reads \<^verbatim>\<open>RIFF\<close>, the size \<open>36 + N\<close>, \<^verbatim>\<open>WAVE\<close>, \<^verbatim>\<open>fmt \<close>, chunk
  size 16, format 1 (PCM), one channel, sample rate 24000, byte rate 48000, block
  align 2, 16 bits per sample, \<^verbatim>\<open>data\<close> and the data size \<open>N\<close>. Beyond that length the RIFF
  size \<open>36 + N\<close> no longer fits the unsigned 32-bit field and \<^verbatim>\<open>struct.pack\<close> raises
  \<^verbatim>\<open>struct.error\<close>: nothing is returned.
\<close>

theorem wav_header_for_pcm_that_fits:
  "(length pcm_data \<le> 4294967259 \<longrightarrow>
      (\<exists>header. add_wav_header pcm_data = Inr (header @ pcm_data)
         \<and> length header = 44
         \<and> length (header @ pcm_data) = length pcm_data + 44
         \<and> take 4 header = bytes_of ''RIFF''
         \<and> le_value (take 4 (drop 4 header)) = 36 + length pcm_data
         \<and> take 8 (drop 8 header) = bytes_of ''WAVEfmt ''
         \<and> le_value (take 4 (drop 16 header)) = 16
         \<and> le_value (take 2 (drop 20 header)) = 1
         \<and> le_value (take 2 (drop 22 header)) = 1
         \<and> le_value (take 4 (drop 24 header)) = 24000
         \<and> le_value (take 4 (drop 28 header)) = 48000
         \<and> le_value (take 2 (drop 32 header)) = 2
         \<and> le_value (take 2 (drop 34 header)) = 16
         \<and> take 4 (drop 36 header) = bytes_of ''data''
         \<and> le_value (take 4 (drop 40 header)) = length pcm_data))
   \<and> (4294967259 < length pcm_data \<longrightarrow>
        add_wav_header pcm_data =
          Inl (StructError ''I format requires 0 <= number <= 4294967295''))"
proof (intro conjI impI)
  assume fits: "length pcm_data \<le> 4294967259"
  define header where "header = [82, 73, 70, 70] @ le_bytes 4 (36 + length pcm_data) @
          [87, 65, 86, 69, 102, 109, 116, 32, 16, 0, 0, 0, 1, 0, 1, 0, 192, 93, 0, 0,
           128, 187, 0, 0, 2, 0, 16, 0, 100, 97, 116, 97] @
          le_bytes 4 (length pcm_data)"
  have r: "add_wav_header pcm_data = Inr (header @ pcm_data)"
    using add_wav_header_fits [OF fits] by (simp add: header_def)
  have l: "length header = 44"
    by (simp add: header_def length_le_bytes)
  have s1: "take 4 (drop 4 header) = le_bytes 4 (36 + length pcm_data)"
    by (simp add: header_def length_le_bytes)
  have s2: "take 4 (drop 40 header) = le_bytes 4 (length pcm_data)"
    by (simp add: header_def length_le_bytes)
  have v1: "le_value (take 4 (drop 4 header)) = 36 + length pcm_data"
    unfolding s1 le_value_le_bytes using fits by simp
  have v2: "le_value (take 4 (drop 40 header)) = length pcm_data"
    unfolding s2 le_value_le_bytes using fits by simp
  have t1: "take 4 header = bytes_of ''RIFF''"
    by (simp add: header_def bytes_of_def)
  have t2: "take 8 (drop 8 header) = bytes_of ''WAVEfmt ''"
    by (simp add: header_def bytes_of_def length_le_bytes)
  have t3: "take 4 (drop 36 header) = bytes_of ''data''"
    by (simp add: header_def bytes_of_def length_le_bytes)
  have f1: "le_value (take 4 (drop 16 header)) = 16"
    by (simp add: header_def length_le_bytes)
  have f2: "le_value (take 2 (drop 20 header)) = 1"
    by (simp add: header_def length_le_bytes)
  have f3: "le_value (take 2 (drop 22 header)) = 1"
    by (simp add: header_def length_le_bytes)
  have f4: "le_value (take 4 (drop 24 header)) = 24000"
    by (simp add: header_def length_le_bytes)
  have f5: "le_value (take 4 (drop 28 header)) = 48000"
    by (simp add: header_def length_le_bytes)
  have f6: "le_value (take 2 (drop 32 header)) = 2"
    by (simp add: header_def length_le_bytes)
  have f7: "le_value (take 2 (drop 34 header)) = 16"
    by (simp add: header_def length_le_bytes)
  from r l v1 v2 t1 t2 t3 f1 f2 f3 f4 f5 f6 f7
  show "\<exists>header. add_wav_header pcm_data = Inr (header @ pcm_data)
         \<and> length header = 44
         \<and> length (header @ pcm_data) = length pcm_data + 44
         \<and> take 4 header = bytes_of ''RIFF''
         \<and> le_value (take 4 (drop 4 header)) = 36 + length pcm_data
         \<and> take 8 (drop 8 header) = bytes_of ''WAVEfmt ''
         \<and> le_value (take 4 (drop 16 header)) = 16
         \<and> le_value (take 2 (drop 20 header)) = 1
         \<and> le_value (take 2 (drop 22 header)) = 1
         \<and> le_value (take 4 (drop 24 header)) = 24000
         \<and> le_value (take 4 (drop 28 header)) = 48000
         \<and> le_value (take 2 (drop 32 header)) = 2
         \<and> le_value (take 2 (drop 34 header)) = 16
         \<and> take 4 (drop 36 header) = bytes_of ''data''
         \<and> le_value (take 4 (drop 40 header)) = length pcm_data"
    by (intro exI [of _ header]) simp
next
  assume "4294967259 < length pcm_data"
  then show "add_wav_header pcm_data =
          Inl (StructError ''I format requires 0 <= number <= 4294967295'')"
    by (rule add_wav_header_too_long)
qed


text \<open>Three bytes of pcm: the 44 bytes of the header, then the three bytes.\<close>

theorem wav_header_for_pcm_that_fits_witness:
  "length [1, 2, 3 :: byte] \<le> 4294967259
   \<and> add_wav_header [1, 2, 3] =
       Inr ([82, 73, 70, 70, 39, 0, 0, 0, 87, 65, 86, 69, 102, 109, 116, 32, 16, 0, 0, 0,
             1, 0, 1, 0, 192, 93, 0, 0, 128, 187, 0, 0, 2, 0, 16, 0, 100, 97, 116, 97,
             3, 0, 0, 0] @ [1, 2, 3])"
proof -
  have fits: "length [1, 2, 3 :: byte] \<le> 4294967259" by simp
  from wav_header_for_pcm_that_fits [of "[1, 2, 3]"] fits
  obtain header where h: "add_wav_header [1, 2, 3] = Inr (header @ [1, 2, 3])" by auto
  have "add_wav_header [1, 2, 3] =
       Inr ([82, 73, 70, 70, 39, 0, 0, 0, 87, 65, 86, 69, 102, 109, 116, 32, 16, 0, 0, 0,
             1, 0, 1, 0, 192, 93, 0, 0, 128, 187, 0, 0, 2, 0, 16, 0, 100, 97, 116, 97,
             3, 0, 0, 0] @ [1, 2, 3])"
    by (simp add: add_wav_header_fits le_bytes_4)
  with fits h show ?thesis by simp
qed


text \<open>
  C6 as stated, for every length, fails: for 4294967260 bytes the RIFF size is \<open>2^32\<close> and
  the call raises instead of returning \<open>N + 44\<close> bytes.
\<close>

theorem wav_header_overflow_counterexample:
  "add_wav_header (replicate 4294967260 0) =
     Inl (StructError ''I format requires 0 <= number <= 4294967295'')"
  by (simp add: add_wav_header_too_long)

subsection \<open>Wrapping pcm before output\<close>

text \<open>
  C5, as the code has it. A non-empty byte sequence classified \<^verbatim>\<open>pcm\<close> never reaches the
  output bare: \<^verbatim>\<open>_format_output\<close> sends it through \<^verbatim>\<open>_add_wav_header\<close> first, so the
  base64 text encodes the 44-byte header followed by the data and the temporary file,
  named \<^verbatim>\<open>.wav\<close>, holds the same (when the data is too long for the header, the call
  raises \<^verbatim>\<open>struct.error\<close> and produces nothing). The empty byte sequence is excluded by
  the guard \<^verbatim>\<open>audio_format == "pcm" and audio_data\<close>: it is output as it is, as the empty
  base64 text or as an empty \<^verbatim>\<open>.wav\<close> file, with no header.
\<close>

theorem pcm_is_wrapped_unless_empty:
  "(audio_data \<noteq> [] \<and> length audio_data \<le> 4294967259 \<longrightarrow>
      (\<exists>header. length header = 44
         \<and> add_wav_header audio_data = Inr (header @ audio_data)
         \<and> format_output audio_data ''base64'' ''pcm'' fs =
             (Inr (b64encode (header @ audio_data)), fs)
         \<and> (output_format \<noteq> ''base64'' \<longrightarrow>
              format_output audio_data output_format ''pcm'' fs =
                (Inr (named_temporary_file ''.wav'' fs),
                 \<lparr>tmp_serial = Suc (tmp_serial fs),
                  tmp_files = tmp_files fs @
                    [(named_temporary_file ''.wav'' fs, header @ audio_data)]\<rparr>))))
   \<and> (4294967259 < length audio_data \<longrightarrow>
        format_output audio_data output_format ''pcm'' fs =
          (Inl (StructError ''I format requires 0 <= number <= 4294967295''), fs))
   \<and> format_output [] ''base64'' ''pcm'' fs = (Inr [], fs)
   \<and> (output_format \<noteq> ''base64'' \<longrightarrow>
        format_output [] output_format ''pcm'' fs =
          (Inr (named_temporary_file ''.wav'' fs),
           \<lparr>tmp_serial = Suc (tmp_serial fs),
            tmp_files = tmp_files fs @ [(named_temporary_file ''.wav'' fs, [])]\<rparr>))"
proof (intro conjI impI)
  assume a: "audio_data \<noteq> [] \<and> length audio_data \<le> 4294967259"
  define header where "header = [82, 73, 70, 70] @ le_bytes 4 (36 + length audio_data) @
          [87, 65, 86, 69, 102, 109, 116, 32, 16, 0, 0, 0, 1, 0, 1, 0, 192, 93, 0, 0,
           128, 187, 0, 0, 2, 0, 16, 0, 100, 97, 116, 97] @
          le_bytes 4 (length audio_data)"
  have l: "length header = 44"
    by (simp add: header_def length_le_bytes)
  from a have r: "add_wav_header audio_data = Inr (header @ audio_data)"
    by (simp add: add_wav_header_fits header_def)
  from a have ne: "audio_data \<noteq> []" by simp
  have b: "format_output audio_data ''base64'' ''pcm'' fs =
             (Inr (b64encode (header @ audio_data)), fs)"
    using format_output_pcm_nonempty [OF ne r, of "''base64''" fs] by simp
  have f: "output_format \<noteq> ''base64'' \<longrightarrow>
              format_output audio_data output_format ''pcm'' fs =
                (Inr (named_temporary_file ''.wav'' fs),
                 \<lparr>tmp_serial = Suc (tmp_serial fs),
                  tmp_files = tmp_files fs @
                    [(named_temporary_file ''.wav'' fs, header @ audio_data)]\<rparr>)"
    using format_output_pcm_nonempty [OF ne r, of output_format fs] by simp
  from l r b f
  show "\<exists>header. length header = 44
         \<and> add_wav_header audio_data = Inr (header @ audio_data)
         \<and> format_output audio_data ''base64'' ''pcm'' fs =
             (Inr (b64encode (header @ audio_data)), fs)
         \<and> (output_format \<noteq> ''base64'' \<longrightarrow>
              format_output audio_data output_format ''pcm'' fs =
                (Inr (named_temporary_file ''.wav'' fs),
                 \<lparr>tmp_serial = Suc (tmp_serial fs),
                  tmp_files = tmp_files fs @
                    [(named_temporary_file ''.wav'' fs, header @ audio_data)]\<rparr>))"
    by (intro exI [of _ header]) simp
next
  assume long: "4294967259 < length audio_data"
  then have ne: "audio_data \<noteq> []" by auto
  from format_output_pcm_error [OF ne add_wav_header_too_long [OF long]]
  show "format_output audio_data output_format ''pcm'' fs =
          (Inl (StructError ''I format requires 0 <= number <= 4294967295''), fs)" .
next
  show "format_output [] ''base64'' ''pcm'' fs = (Inr [], fs)"
    by (simp add: format_output_pcm_empty)
next
  assume "output_format \<noteq> ''base64''"
  then show "format_output [] output_format ''pcm'' fs =
          (Inr (named_temporary_file ''.wav'' fs),
           \<lparr>tmp_serial = Suc (tmp_serial fs),
            tmp_files = tmp_files fs @ [(named_temporary_file ''.wav'' fs, [])]\<rparr>)"
    by (simp add: format_output_pcm_empty)
qed


text \<open>Two bytes of pcm, as base64: the text is that of the header and the two bytes.\<close>

theorem pcm_is_wrapped_unless_empty_witness:
  "[1, 2 :: byte] \<noteq> [] \<and> length [1, 2 :: byte] \<le> 4294967259
   \<and> format_output [1, 2] ''base64'' ''pcm'' \<lparr>tmp_serial = 0, tmp_files = []\<rparr> =
       (Inr ''UklGRiYAAABXQVZFZm10IBAAAAABAAEAwF0AAIC7AAACABAAZGF0YQIAAAABAg=='',
        \<lparr>tmp_serial = 0, tmp_files = []\<rparr>)"
proof -
  have h: "[1, 2 :: byte] \<noteq> [] \<and> length [1, 2 :: byte] \<le> 4294967259" by simp
  have w: "add_wav_header [1, 2] =
       Inr ([82, 73, 70, 70, 38, 0, 0, 0, 87, 65, 86, 69, 102, 109, 116, 32, 16, 0, 0, 0,
             1, 0, 1, 0, 192, 93, 0, 0, 128, 187, 0, 0, 2, 0, 16, 0, 100, 97, 116, 97,
             2, 0, 0, 0] @ [1, 2])"
    by (simp add: add_wav_header_fits le_bytes_4)
  from pcm_is_wrapped_unless_empty
         [of "[1, 2]" "\<lparr>tmp_serial = 0, tmp_files = []\<rparr>" "''file_path''"] h
  obtain header where
    "add_wav_header [1, 2] = Inr (header @ [1, 2])"
    "format_output [1, 2] ''base64'' ''pcm'' \<lparr>tmp_serial = 0, tmp_files = []\<rparr> =
       (Inr (b64encode (header @ [1, 2])), \<lparr>tmp_serial = 0, tmp_files = []\<rparr>)"
    by auto
  with w have "format_output [1, 2] ''base64'' ''pcm'' \<lparr>tmp_serial = 0, tmp_files = []\<rparr> =
       (Inr (b64encode ([82, 73, 70, 70, 38, 0, 0, 0, 87, 65, 86, 69, 102, 109, 116, 32, 16, 0,
             0, 0, 1, 0, 1, 0, 192, 93, 0, 0, 128, 187, 0, 0, 2, 0, 16, 0, 100, 97, 116, 97,
             2, 0, 0, 0, 1, 2])), \<lparr>tmp_serial = 0, tmp_files = []\<rparr>)"
    by simp
  with h show ?thesis
    unfolding b64_two_bytes_wrapped by simp
qed


text \<open>
  C5 as stated, the empty byte sequence included, fails: empty pcm comes out as the empty
  base64 text, and as an empty file, not as a 44-byte header.
\<close>

theorem empty_pcm_is_not_wrapped_counterexample:
  "format_output [] ''base64'' ''pcm'' \<lparr>tmp_serial = 0, tmp_files = []\<rparr> =
     (Inr [], \<lparr>tmp_serial = 0, tmp_files = []\<rparr>)
   \<and> format_output [] ''file_path'' ''pcm'' \<lparr>tmp_serial = 0, tmp_files = []\<rparr> =
     (Inr ''/tmp/tmp0.wav'', \<lparr>tmp_serial = 1, tmp_files = [(''/tmp/tmp0.wav'', [])]\<rparr>)"
  by (simp add: format_output_pcm_empty named_temporary_file_def str_nat_0)
section \<open>Properties of the resolver\<close>

subsection \<open>Prefixes and substrings\<close>

text \<open>
  \<open>startswith\<close> and \<open>contains\<close> compute what \<^verbatim>\<open>startswith\<close> and \<^verbatim>\<open>in\<close> mean: the list
  begins with the prefix, the string has the substring somewhere.
\<close>

lemma startswith_append: "startswith (p @ rest) p"
  by (induction p) simp_all

lemma startswith_iff: "startswith xs p \<longleftrightarrow> (\<exists>rest. xs = p @ rest)"
proof (induction xs p rule: startswith.induct)
  case (1 xs)
  show ?case by simp
next
  case (2 p ps)
  show ?case by simp
next
  case (3 x xs p ps)
  then show ?case by auto
qed

lemma contains_iff: "contains s sub \<longleftrightarrow> (\<exists>pre post. s = pre @ sub @ post)"
proof (induction s)
  case Nil
  show ?case by auto
next
  case (Cons c cs)
  show ?case
  proof
    assume "contains (c # cs) sub"
    then consider "startswith (c # cs) sub" | "contains cs sub" by auto
    then show "\<exists>pre post. c # cs = pre @ sub @ post"
    proof cases
      case 1
      then obtain rest where "c # cs = sub @ rest" by (auto simp: startswith_iff)
      then have "c # cs = [] @ sub @ rest" by simp
      then show ?thesis by blast
    next
      case 2
      with Cons.IH obtain pre post where "cs = pre @ sub @ post" by blast
      then have "c # cs = (c # pre) @ sub @ post" by simp
      then show ?thesis by blast
    qed
  next
    assume "\<exists>pre post. c # cs = pre @ sub @ post"
    then obtain pre post where e: "c # cs = pre @ sub @ post" by blast
    show "contains (c # cs) sub"
    proof (cases pre)
      case Nil
      with e have "startswith (c # cs) sub" by (simp add: startswith_append)
      then show ?thesis by simp
    next
      case (Cons a pre')
      with e have "cs = pre' @ sub @ post" by simp
      with Cons.IH have "contains cs sub" by blast
      then show ?thesis by simp
    qed
  qed
qed

lemma detect_riff: "detect_audio_format (bytes_of ''RIFF'' @ rest) ct = ''wav''"
  by (simp add: detect_audio_format_def startswith_append)

lemma detect_flac: "detect_audio_format (bytes_of ''fLaC'' @ rest) ct = ''flac''"
  by (simp add: detect_audio_format_def bytes_of_def)

lemma detect_ogg: "detect_audio_format (bytes_of ''OggS'' @ rest) ct = ''ogg''"
  by (simp add: detect_audio_format_def bytes_of_def)

lemma detect_id3: "detect_audio_format (bytes_of ''ID3'' @ rest) ct = ''mp3''"
  by (simp add: detect_audio_format_def bytes_of_def)

lemma detect_frame_sync:
  "detect_audio_format ([0xFF, 0xFB] @ rest) ct = ''mp3''"
  "detect_audio_format ([0xFF, 0xFA] @ rest) ct = ''mp3''"
  by (simp_all add: detect_audio_format_def bytes_of_def)

lemma detect_no_magic:
  assumes "\<not> startswith audio_data (bytes_of ''RIFF'')"
    and "\<not> startswith audio_data [0xFF, 0xFB]"
    and "\<not> startswith audio_data [0xFF, 0xFA]"
    and "\<not> startswith audio_data (bytes_of ''ID3'')"
    and "\<not> startswith audio_data (bytes_of ''fLaC'')"
    and "\<not> startswith audio_data (bytes_of ''OggS'')"
  shows "detect_audio_format audio_data ct =
     (if contains (lower ct) ''wav'' \<or> contains (lower ct) ''wave'' then ''wav''
      else if contains (lower ct) ''mpeg'' \<or> contains (lower ct) ''mp3'' then ''mp3''
      else if contains (lower ct) ''flac'' then ''flac''
      else if contains (lower ct) ''ogg'' then ''ogg''
      else ''pcm'')"
  using assms unfolding detect_audio_format_def Let_def by simp

lemma detect_other_sync_byte:
  "b \<noteq> 0xFB \<Longrightarrow> b \<noteq> 0xFA \<Longrightarrow>
   detect_audio_format ([0xFF, b] @ rest) ct = detect_audio_format [] ct"
  by (simp add: detect_audio_format_def bytes_of_def)

lemma lower_audio_wav: "lower ''audio/wav'' = ''audio/wav''"
  by code_simp

lemma lower_empty: "lower [] = []"
  by (simp add: lower_def)


lemma lower_audio_mpeg: "lower ''Audio/MPEG'' = ''audio/mpeg''"
  by code_simp

lemma lower_octet_stream: "lower ''application/octet-stream'' = ''application/octet-stream''"
  by code_simp


lemma audio_from_message_fetch:
  assumes "message st = Some msg" and "message_truthy msg" and "truthy (message_url msg)"
  shows "audio_from_message http_get st w =
     (case http_get (message_url msg) [] w of
        (Inl e, w1) \<Rightarrow> (Inl e, w1)
      | (Inr resp, w1) \<Rightarrow>
          (Inr (content resp,
                detect_audio_format (content resp)
                  (case content_type resp of None \<Rightarrow> [] | Some t \<Rightarrow> t)), w1))"
  using assms by (simp add: audio_from_message_def Let_def)

lemma audio_from_message_nothing:
  assumes "message st = None
           \<or> (\<exists>msg. message st = Some msg \<and> (\<not> message_truthy msg \<or> \<not> truthy (message_url msg)))"
  shows "audio_from_message http_get st w = (Inr ([], ''pcm''), w)"
  using assms by (auto simp: audio_from_message_def Let_def)

lemma get_audio_without_run_id:
  assumes "\<not> truthy (case run_id st of None \<Rightarrow> PNone | Some v \<Rightarrow> v)"
  shows "get_audio_from_status self http_get st w = audio_from_message http_get st w"
  using assms by (simp add: get_audio_from_status_def Let_def)

lemma get_audio_primary_not_200:
  assumes "run_id st = Some rid" and "truthy rid"
    and "http_get (PStr (case wrapper_base_url self of
                     Some base \<Rightarrow> base @ ''/tts-result/'' @ py_str rid
                   | None \<Rightarrow> ''https://client.camb.ai/apis/tts-result/'' @ py_str rid))
           [(''x-api-key'', api_key self)] w = (Inr resp, w1)"
    and "status_code resp \<noteq> 200"
  shows "get_audio_from_status self http_get st w = audio_from_message http_get st w1"
  using assms by (simp add: get_audio_from_status_def Let_def)


subsection \<open>Format detection\<close>

text \<open>
  C4, as the code has it. \<^verbatim>\<open>_detect_audio_format\<close> looks at the bytes first and at the
  content type second. Bytes that start with \<^verbatim>\<open>RIFF\<close> are \<^verbatim>\<open>wav\<close>, with \<^verbatim>\<open>fLaC\<close> are
  \<^verbatim>\<open>flac\<close>, with \<^verbatim>\<open>OggS\<close> are \<^verbatim>\<open>ogg\<close>, with \<^verbatim>\<open>ID3\<close> or with one of the two
  frame-sync pairs \<^verbatim>\<open>FF FB\<close> and \<^verbatim>\<open>FF FA\<close> are \<^verbatim>\<open>mp3\<close>, whatever the content type says.
  Any other byte after \<^verbatim>\<open>FF\<close> is no magic sequence: such data is classified as if there
  were no bytes at all. Only when none of the prefixes is there does the content type
  decide, by a substring test on its lower-case form: \<^verbatim>\<open>wav\<close> or \<^verbatim>\<open>wave\<close> gives \<^verbatim>\<open>wav\<close>,
  else \<^verbatim>\<open>mpeg\<close> or \<^verbatim>\<open>mp3\<close> gives \<^verbatim>\<open>mp3\<close>, else \<^verbatim>\<open>flac\<close> gives \<^verbatim>\<open>flac\<close>, else \<^verbatim>\<open>ogg\<close>
  gives \<^verbatim>\<open>ogg\<close>; two content types with the same lower-case form give the same answer.
  When neither the bytes nor the content type match, the result is \<^verbatim>\<open>pcm\<close>.
\<close>

theorem detection_is_content_first:
  "detect_audio_format (bytes_of ''RIFF'' @ rest) ctype = ''wav''
   \<and> detect_audio_format (bytes_of ''fLaC'' @ rest) ctype = ''flac''
   \<and> detect_audio_format (bytes_of ''OggS'' @ rest) ctype = ''ogg''
   \<and> detect_audio_format (bytes_of ''ID3'' @ rest) ctype = ''mp3''
   \<and> detect_audio_format ([0xFF, 0xFB] @ rest) ctype = ''mp3''
   \<and> detect_audio_format ([0xFF, 0xFA] @ rest) ctype = ''mp3''
   \<and> (b \<noteq> 0xFB \<and> b \<noteq> 0xFA
      \<longrightarrow> detect_audio_format ([0xFF, b] @ rest) ctype = detect_audio_format [] ctype)
   \<and> (\<not> startswith audio_data (bytes_of ''RIFF'')
        \<and> \<not> startswith audio_data [0xFF, 0xFB]
        \<and> \<not> startswith audio_data [0xFF, 0xFA]
        \<and> \<not> startswith audio_data (bytes_of ''ID3'')
        \<and> \<not> startswith audio_data (bytes_of ''fLaC'')
        \<and> \<not> startswith audio_data (bytes_of ''OggS'')
      \<longrightarrow>
        (contains (lower ctype) ''wav'' \<or> contains (lower ctype) ''wave''
           \<longrightarrow> detect_audio_format audio_data ctype = ''wav'')
        \<and> (\<not> contains (lower ctype) ''wav'' \<and> \<not> contains (lower ctype) ''wave''
             \<and> (contains (lower ctype) ''mpeg'' \<or> contains (lower ctype) ''mp3'')
           \<longrightarrow> detect_audio_format audio_data ctype = ''mp3'')
        \<and> (\<not> contains (lower ctype) ''wav'' \<and> \<not> contains (lower ctype) ''wave''
             \<and> \<not> contains (lower ctype) ''mpeg'' \<and> \<not> contains (lower ctype) ''mp3''
             \<and> contains (lower ctype) ''flac''
           \<longrightarrow> detect_audio_format audio_data ctype = ''flac'')
        \<and> (\<not> contains (lower ctype) ''wav'' \<and> \<not> contains (lower ctype) ''wave''
             \<and> \<not> contains (lower ctype) ''mpeg'' \<and> \<not> contains (lower ctype) ''mp3''
             \<and> \<not> contains (lower ctype) ''flac'' \<and> contains (lower ctype) ''ogg''
           \<longrightarrow> detect_audio_format audio_data ctype = ''ogg'')
        \<and> (\<not> contains (lower ctype) ''wav'' \<and> \<not> contains (lower ctype) ''wave''
             \<and> \<not> contains (lower ctype) ''mpeg'' \<and> \<not> contains (lower ctype) ''mp3''
             \<and> \<not> contains (lower ctype) ''flac'' \<and> \<not> contains (lower ctype) ''ogg''
           \<longrightarrow> detect_audio_format audio_data ctype = ''pcm'')
        \<and> (lower other = lower ctype
           \<longrightarrow> detect_audio_format audio_data other =
               detect_audio_format audio_data ctype))"
proof (intro conjI)
  show "detect_audio_format (bytes_of ''RIFF'' @ rest) ctype = ''wav''"
    by (rule detect_riff)
  show "detect_audio_format (bytes_of ''fLaC'' @ rest) ctype = ''flac''"
    by (rule detect_flac)
  show "detect_audio_format (bytes_of ''OggS'' @ rest) ctype = ''ogg''"
    by (rule detect_ogg)
  show "detect_audio_format (bytes_of ''ID3'' @ rest) ctype = ''mp3''"
    by (rule detect_id3)
  show "detect_audio_format ([0xFF, 0xFB] @ rest) ctype = ''mp3''"
    by (rule detect_frame_sync)
  show "detect_audio_format ([0xFF, 0xFA] @ rest) ctype = ''mp3''"
    by (rule detect_frame_sync)
  show "b \<noteq> 0xFB \<and> b \<noteq> 0xFA
      \<longrightarrow> detect_audio_format ([0xFF, b] @ rest) ctype = detect_audio_format [] ctype"
    by (intro impI, elim conjE) (rule detect_other_sync_byte)
  show "\<not> startswith audio_data (bytes_of ''RIFF'')
        \<and> \<not> startswith audio_data [0xFF, 0xFB]
        \<and> \<not> startswith audio_data [0xFF, 0xFA]
        \<and> \<not> startswith audio_data (bytes_of ''ID3'')
        \<and> \<not> startswith audio_data (bytes_of ''fLaC'')
        \<and> \<not> startswith audio_data (bytes_of ''OggS'')
      \<longrightarrow>
        (contains (lower ctype) ''wav'' \<or> contains (lower ctype) ''wave''
           \<longrightarrow> detect_audio_format audio_data ctype = ''wav'')
        \<and> (\<not> contains (lower ctype) ''wav'' \<and> \<not> contains (lower ctype) ''wave''
             \<and> (contains (lower ctype) ''mpeg'' \<or> contains (lower ctype) ''mp3'')
           \<longrightarrow> detect_audio_format audio_data ctype = ''mp3'')
        \<and> (\<not> contains (lower ctype) ''wav'' \<and> \<not> contains (lower ctype) ''wave''
             \<and> \<not> contains (lower ctype) ''mpeg'' \<and> \<not> contains (lower ctype) ''mp3''
             \<and> contains (lower ctype) ''flac''
           \<longrightarrow> detect_audio_format audio_data ctype = ''flac'')
        \<and> (\<not> contains (lower ctype) ''wav'' \<and> \<not> contains (lower ctype) ''wave''
             \<and> \<not> contains (lower ctype) ''mpeg'' \<and> \<not> contains (lower ctype) ''mp3''
             \<and> \<not> contains (lower ctype) ''flac'' \<and> contains (lower ctype) ''ogg''
           \<longrightarrow> detect_audio_format audio_data ctype = ''ogg'')
        \<and> (\<not> contains (lower ctype) ''wav'' \<and> \<not> contains (lower ctype) ''wave''
             \<and> \<not> contains (lower ctype) ''mpeg'' \<and> \<not> contains (lower ctype) ''mp3''
             \<and> \<not> contains (lower ctype) ''flac'' \<and> \<not> contains (lower ctype) ''ogg''
           \<longrightarrow> detect_audio_format audio_data ctype = ''pcm'')
        \<and> (lower other = lower ctype
           \<longrightarrow> detect_audio_format audio_data other =
               detect_audio_format audio_data ctype)"
  proof
    assume m: "\<not> startswith audio_data (bytes_of ''RIFF'')
        \<and> \<not> startswith audio_data [0xFF, 0xFB]
        \<and> \<not> startswith audio_data [0xFF, 0xFA]
        \<and> \<not> startswith audio_data (bytes_of ''ID3'')
        \<and> \<not> startswith audio_data (bytes_of ''fLaC'')
        \<and> \<not> startswith audio_data (bytes_of ''OggS'')"
    have d: "detect_audio_format audio_data ct =
       (if contains (lower ct) ''wav'' \<or> contains (lower ct) ''wave'' then ''wav''
        else if contains (lower ct) ''mpeg'' \<or> contains (lower ct) ''mp3'' then ''mp3''
        else if contains (lower ct) ''flac'' then ''flac''
        else if contains (lower ct) ''ogg'' then ''ogg''
        else ''pcm'')" for ct
      using m by (intro detect_no_magic) simp_all
    show "(contains (lower ctype) ''wav'' \<or> contains (lower ctype) ''wave''
           \<longrightarrow> detect_audio_format audio_data ctype = ''wav'')
        \<and> (\<not> contains (lower ctype) ''wav'' \<and> \<not> contains (lower ctype) ''wave''
             \<and> (contains (lower ctype) ''mpeg'' \<or> contains (lower ctype) ''mp3'')
           \<longrightarrow> detect_audio_format audio_data ctype = ''mp3'')
        \<and> (\<not> contains (lower ctype) ''wav'' \<and> \<not> contains (lower ctype) ''wave''
             \<and> \<not> contains (lower ctype) ''mpeg'' \<and> \<not> contains (lower ctype) ''mp3''
             \<and> contains (lower ctype) ''flac''
           \<longrightarrow> detect_audio_format audio_data ctype = ''flac'')
        \<and> (\<not> contains (lower ctype) ''wav'' \<and> \<not> contains (lower ctype) ''wave''
             \<and> \<not> contains (lower ctype) ''mpeg'' \<and> \<not> contains (lower ctype) ''mp3''
             \<and> \<not> contains (lower ctype) ''flac'' \<and> contains (lower ctype) ''ogg''
           \<longrightarrow> detect_audio_format audio_data ctype = ''ogg'')
        \<and> (\<not> contains (lower ctype) ''wav'' \<and> \<not> contains (lower ctype) ''wave''
             \<and> \<not> contains (lower ctype) ''mpeg'' \<and> \<not> contains (lower ctype) ''mp3''
             \<and> \<not> contains (lower ctype) ''flac'' \<and> \<not> contains (lower ctype) ''ogg''
           \<longrightarrow> detect_audio_format audio_data ctype = ''pcm'')
        \<and> (lower other = lower ctype
           \<longrightarrow> detect_audio_format audio_data other =
               detect_audio_format audio_data ctype)"
      unfolding d by simp
  qed
qed


text \<open>
  A RIFF file served as \<^verbatim>\<open>Audio/MPEG\<close> is \<^verbatim>\<open>wav\<close>; two bytes without a magic prefix are
  \<^verbatim>\<open>mp3\<close> under that content type and \<^verbatim>\<open>pcm\<close> under \<^verbatim>\<open>application/octet-stream\<close>.
\<close>

theorem detection_is_content_first_witness:
  "detect_audio_format (bytes_of ''RIFF'' @ [36, 0, 0, 0]) ''Audio/MPEG'' = ''wav''
   \<and> \<not> startswith [0, 1 :: byte] (bytes_of ''RIFF'')
   \<and> contains (lower ''Audio/MPEG'') ''mpeg''
   \<and> detect_audio_format [0, 1] ''Audio/MPEG'' = ''mp3''
   \<and> \<not> contains (lower ''application/octet-stream'') ''ogg''
   \<and> detect_audio_format [0, 1] ''application/octet-stream'' = ''pcm''"
  using detection_is_content_first
          [where rest = "[36, 0, 0, 0]" and ctype = "''Audio/MPEG''" and audio_data = "[0, 1]"
             and other = "''audio/mpeg''"]
        detection_is_content_first
          [where rest = "[36, 0, 0, 0]" and ctype = "''application/octet-stream''"
             and audio_data = "[0, 1]" and other = "''application/octet-stream''"]
  by (simp add: lower_audio_mpeg lower_octet_stream bytes_of_def)


text \<open>
  C4 as stated, for MP3 frame-sync leading bytes in general, fails: \<^verbatim>\<open>FF F3\<close> opens an
  MPEG-2 Layer III frame, and data that begins with it is \<^verbatim>\<open>pcm\<close> without a content type
  and \<^verbatim>\<open>wav\<close> under \<^verbatim>\<open>audio/wav\<close>, not \<^verbatim>\<open>mp3\<close>.
\<close>

theorem other_frame_sync_not_detected_counterexample:
  "detect_audio_format [0xFF, 0xF3, 0x84, 0xC4] [] = ''pcm''
   \<and> detect_audio_format [0xFF, 0xF3, 0x84, 0xC4] ''audio/wav'' = ''wav''"
  by (simp add: detect_audio_format_def bytes_of_def lower_empty lower_audio_wav)

subsection \<open>The fallback of \<^verbatim>\<open>_get_audio_from_status\<close>\<close>

text \<open>
  C8, as the code has it. In the fallback path (no true \<^verbatim>\<open>run_id\<close>, or a primary
  response other than 200), a message that is a mapping gives the URL by
  \<^verbatim>\<open>get("output_url") or get("audio_url") or get("url")\<close>: the value of the first of the
  three keys, in this order, whose value is true. The value under \<^verbatim>\<open>output_url\<close> is used
  whenever it is true, also when the other keys are present; an \<^verbatim>\<open>output_url\<close> that is
  \<^verbatim>\<open>None\<close> or the empty string is passed over for \<^verbatim>\<open>audio_url\<close>, and that one for
  \<^verbatim>\<open>url\<close>. A message that is a string is the URL itself when it starts with \<^verbatim>\<open>http\<close>,
  and no URL otherwise; any other message gives no URL. With a true URL the resolver
  fetches it and returns its bytes and their detected format; in every other case (no
  message, a message that is false, no true URL) it returns the empty byte sequence with
  format \<^verbatim>\<open>pcm\<close> and makes no request.
\<close>

theorem fallback_url_by_priority_among_truthy_values:
  "(truthy (dict_get d ''output_url'')
      \<longrightarrow> message_url (MDict d) = dict_get d ''output_url'')
   \<and> (\<not> truthy (dict_get d ''output_url'') \<and> truthy (dict_get d ''audio_url'')
      \<longrightarrow> message_url (MDict d) = dict_get d ''audio_url'')
   \<and> (\<not> truthy (dict_get d ''output_url'') \<and> \<not> truthy (dict_get d ''audio_url'')
      \<longrightarrow> message_url (MDict d) = dict_get d ''url'')
   \<and> (startswith s ''http'' \<longrightarrow> message_url (MVal (PStr s)) = PStr s)
   \<and> (\<not> startswith s ''http'' \<longrightarrow> message_url (MVal (PStr s)) = PNone)
   \<and> message_url (MVal PNone) = PNone
   \<and> message_url (MVal (PBool b)) = PNone
   \<and> message_url (MVal (PInt i)) = PNone
   \<and> (message st = Some msg \<and> message_truthy msg \<and> truthy (message_url msg)
      \<longrightarrow> audio_from_message http_get st w =
           (case http_get (message_url msg) [] w of
              (Inl e, w1) \<Rightarrow> (Inl e, w1)
            | (Inr resp, w1) \<Rightarrow>
                (Inr (content resp,
                      detect_audio_format (content resp)
                        (case content_type resp of None \<Rightarrow> [] | Some t \<Rightarrow> t)), w1)))
   \<and> (message st = None
        \<or> (\<exists>msg. message st = Some msg
               \<and> (\<not> message_truthy msg \<or> \<not> truthy (message_url msg)))
      \<longrightarrow> audio_from_message http_get st w = (Inr ([], ''pcm''), w))
   \<and> (\<not> truthy (case run_id st of None \<Rightarrow> PNone | Some v \<Rightarrow> v)
      \<longrightarrow> get_audio_from_status self http_get st w = audio_from_message http_get st w)
   \<and> (run_id st = Some rid \<and> truthy rid
        \<and> http_get (PStr (case wrapper_base_url self of
                     Some base \<Rightarrow> base @ ''/tts-result/'' @ py_str rid
                   | None \<Rightarrow> ''https://client.camb.ai/apis/tts-result/'' @ py_str rid))
             [(''x-api-key'', api_key self)] w = (Inr resp', w')
        \<and> status_code resp' \<noteq> 200
      \<longrightarrow> get_audio_from_status self http_get st w = audio_from_message http_get st w')"
proof (intro conjI impI)
  show "message_url (MVal PNone) = PNone" by simp
  show "message_url (MVal (PBool b)) = PNone" by simp
  show "message_url (MVal (PInt i)) = PNone" by simp
next
  assume "truthy (dict_get d ''output_url'')"
  then show "message_url (MDict d) = dict_get d ''output_url''"
    by (simp add: py_or_def)
next
  assume "\<not> truthy (dict_get d ''output_url'') \<and> truthy (dict_get d ''audio_url'')"
  then show "message_url (MDict d) = dict_get d ''audio_url''"
    by (simp add: py_or_def)
next
  assume "\<not> truthy (dict_get d ''output_url'') \<and> \<not> truthy (dict_get d ''audio_url'')"
  then show "message_url (MDict d) = dict_get d ''url''"
    by (simp add: py_or_def)
next
  assume "startswith s ''http''"
  then show "message_url (MVal (PStr s)) = PStr s" by simp
next
  assume "\<not> startswith s ''http''"
  then show "message_url (MVal (PStr s)) = PNone" by simp
next
  assume "message st = Some msg \<and> message_truthy msg \<and> truthy (message_url msg)"
  then show "audio_from_message http_get st w =
           (case http_get (message_url msg) [] w of
              (Inl e, w1) \<Rightarrow> (Inl e, w1)
            | (Inr resp, w1) \<Rightarrow>
                (Inr (content resp,
                      detect_audio_format (content resp)
                        (case content_type resp of None \<Rightarrow> [] | Some t \<Rightarrow> t)), w1))"
    by (intro audio_from_message_fetch) simp_all
next
  assume "message st = None
        \<or> (\<exists>msg. message st = Some msg
               \<and> (\<not> message_truthy msg \<or> \<not> truthy (message_url msg)))"
  then show "audio_from_message http_get st w = (Inr ([], ''pcm''), w)"
    by (rule audio_from_message_nothing)
next
  assume "\<not> truthy (case run_id st of None \<Rightarrow> PNone | Some v \<Rightarrow> v)"
  then show "get_audio_from_status self http_get st w = audio_from_message http_get st w"
    by (rule get_audio_without_run_id)
next
  assume "run_id st = Some rid \<and> truthy rid
        \<and> http_get (PStr (case wrapper_base_url self of
                     Some base \<Rightarrow> base @ ''/tts-result/'' @ py_str rid
                   | None \<Rightarrow> ''https://client.camb.ai/apis/tts-result/'' @ py_str rid))
             [(''x-api-key'', api_key self)] w = (Inr resp', w')
        \<and> status_code resp' \<noteq> 200"
  then show "get_audio_from_status self http_get st w = audio_from_message http_get st w'"
    by (intro get_audio_primary_not_200 [where rid = rid and resp = resp']) simp_all
qed


text \<open>
  A mapping with both \<^verbatim>\<open>audio_url\<close> and a true \<^verbatim>\<open>output_url\<close>: the latter is fetched. A
  string message with another scheme: nothing is fetched.
\<close>

theorem fallback_url_by_priority_among_truthy_values_witness:
  "truthy (dict_get [(''audio_url'', PStr ''https://cdn.example/audio.wav''),
                     (''output_url'', PStr ''https://cdn.example/out.mp3'')] ''output_url'')
   \<and> message_url (MDict [(''audio_url'', PStr ''https://cdn.example/audio.wav''),
                         (''output_url'', PStr ''https://cdn.example/out.mp3'')])
       = PStr ''https://cdn.example/out.mp3''
   \<and> get_audio_from_status (demo_tool 60 2) (canned_get cdn)
          (message_status (MDict [(''audio_url'', PStr ''https://cdn.example/audio.wav''),
                                  (''output_url'', PStr ''https://cdn.example/out.mp3'')])) []
       = (Inr (bytes_of ''ID3'', ''mp3''), [(PStr ''https://cdn.example/out.mp3'', [])])
   \<and> get_audio_from_status (demo_tool 60 2) (canned_get cdn)
          (message_status (MVal (PStr ''ftp://cdn.example/audio.wav''))) []
       = (Inr ([], ''pcm''), [])"
proof -
  let ?d = "[(''audio_url'', PStr ''https://cdn.example/audio.wav''),
             (''output_url'', PStr ''https://cdn.example/out.mp3'')]"
  note a = fallback_url_by_priority_among_truthy_values
             [where d = ?d and st = "message_status (MDict ?d)" and msg = "MDict ?d"
                and http_get = "canned_get cdn" and w = "[]" and self = "demo_tool 60 2"]
  note b = fallback_url_by_priority_among_truthy_values
             [where s = "''ftp://cdn.example/audio.wav''"
                and st = "message_status (MVal (PStr ''ftp://cdn.example/audio.wav''))"
                and msg = "MVal (PStr ''ftp://cdn.example/audio.wav'')"
                and http_get = "canned_get cdn" and w = "[]" and self = "demo_tool 60 2"]
  have t: "truthy (dict_get ?d ''output_url'')"
    by (simp add: dict_get_def)
  from a t have u: "message_url (MDict ?d) = PStr ''https://cdn.example/out.mp3''"
    by (simp add: dict_get_def)
  have g: "get_audio_from_status (demo_tool 60 2) (canned_get cdn) (message_status (MDict ?d)) []
       = (Inr (bytes_of ''ID3'', ''mp3''), [(PStr ''https://cdn.example/out.mp3'', [])])"
    using a u by (simp add: message_status_def canned_get_def cdn_def detect_audio_format_def bytes_of_def)
  have n: "get_audio_from_status (demo_tool 60 2) (canned_get cdn)
          (message_status (MVal (PStr ''ftp://cdn.example/audio.wav''))) []
       = (Inr ([], ''pcm''), [])"
    using b by (simp add: message_status_def)
  from t u g n show ?thesis by simp
qed


text \<open>
  C8 as stated fails: a mapping that contains \<^verbatim>\<open>output_url\<close> with the empty string as its
  value, next to an \<^verbatim>\<open>audio_url\<close>, does not use the value of \<^verbatim>\<open>output_url\<close> (which would
  mean no URL and an empty \<^verbatim>\<open>pcm\<close> result): the resolver fetches the \<^verbatim>\<open>audio_url\<close>.
\<close>

theorem empty_output_url_is_skipped_counterexample:
  "map_of [(''output_url'', PStr ''''), (''audio_url'', PStr ''https://cdn.example/audio.wav'')]
      ''output_url'' = Some (PStr '''')
   \<and> message_url (MDict [(''output_url'', PStr ''''),
                         (''audio_url'', PStr ''https://cdn.example/audio.wav'')])
       = PStr ''https://cdn.example/audio.wav''
   \<and> get_audio_from_status (demo_tool 60 2) (canned_get cdn)
          (message_status (MDict [(''output_url'', PStr ''''),
                                  (''audio_url'', PStr ''https://cdn.example/audio.wav'')])) []
       = (Inr (bytes_of ''RIFF'', ''wav''), [(PStr ''https://cdn.example/audio.wav'', [])])"
  by (simp add: get_audio_from_status_def audio_from_message_def message_status_def
        canned_get_def cdn_def dict_get_def py_or_def detect_audio_format_def bytes_of_def)

section \<open>Properties of the translation tool\<close>

lemma run_api_error:
  assumes "ts (translation_kwargs input src tgt formality) w = (Inl (ApiError sc body), w')"
  shows "CambTranslationTool_run ts input src tgt formality w =
     (if sc = Some 200 \<and> truthy body then (Inr (PStr (py_str body)), w')
      else (Inl (ApiError sc body), w'))"
  using assms by (simp add: CambTranslationTool_run_def Let_def)

lemma arun_api_error:
  assumes "ts (translation_kwargs input src tgt formality) w = (Inl (ApiError sc body), w')"
  shows "CambTranslationTool_arun ts input src tgt formality w =
     (if sc = Some 200 \<and> truthy body then (Inr (PStr (py_str body)), w')
      else (Inl (ApiError sc body), w'))"
  using assms by (simp add: CambTranslationTool_arun_def Let_def)


text \<open>
  C9. Success through the error channel. When \<^verbatim>\<open>translation_stream\<close> raises an
  \<^verbatim>\<open>ApiError\<close> whose \<^verbatim>\<open>status_code\<close> is 200 and whose body is true (not empty), \<^verbatim>\<open>_run\<close>
  and \<^verbatim>\<open>_arun\<close> return \<^verbatim>\<open>str(e.body)\<close>, which for a string body is the body itself,
  instead of raising. Every other \<^verbatim>\<open>ApiError\<close> (another status code, or a body that is
  false) is raised again unchanged.
\<close>

theorem translation_success_via_error_channel:
  "(ts (translation_kwargs input src tgt formality) w = (Inl (ApiError (Some 200) body), w')
      \<and> truthy body
    \<longrightarrow> CambTranslationTool_run ts input src tgt formality w = (Inr (PStr (py_str body)), w')
        \<and> CambTranslationTool_arun ts input src tgt formality w = (Inr (PStr (py_str body)), w'))
   \<and> (ts (translation_kwargs input src tgt formality) w = (Inl (ApiError (Some 200) (PStr s)), w')
      \<and> s \<noteq> []
    \<longrightarrow> CambTranslationTool_run ts input src tgt formality w = (Inr (PStr s), w')
        \<and> CambTranslationTool_arun ts input src tgt formality w = (Inr (PStr s), w'))
   \<and> (ts (translation_kwargs input src tgt formality) w = (Inl (ApiError sc body), w')
      \<and> \<not> (sc = Some 200 \<and> truthy body)
    \<longrightarrow> CambTranslationTool_run ts input src tgt formality w = (Inl (ApiError sc body), w')
        \<and> CambTranslationTool_arun ts input src tgt formality w = (Inl (ApiError sc body), w'))"
proof (intro conjI impI)
  assume a: "ts (translation_kwargs input src tgt formality) w = (Inl (ApiError (Some 200) body), w')
      \<and> truthy body"
  then show "CambTranslationTool_run ts input src tgt formality w = (Inr (PStr (py_str body)), w')"
    by (simp add: run_api_error)
  from a show "CambTranslationTool_arun ts input src tgt formality w = (Inr (PStr (py_str body)), w')"
    by (simp add: arun_api_error)
next
  assume a: "ts (translation_kwargs input src tgt formality) w = (Inl (ApiError (Some 200) (PStr s)), w')
      \<and> s \<noteq> []"
  then show "CambTranslationTool_run ts input src tgt formality w = (Inr (PStr s), w')"
    by (simp add: run_api_error)
  from a show "CambTranslationTool_arun ts input src tgt formality w = (Inr (PStr s), w')"
    by (simp add: arun_api_error)
next
  assume a: "ts (translation_kwargs input src tgt formality) w = (Inl (ApiError sc body), w')
      \<and> \<not> (sc = Some 200 \<and> truthy body)"
  then show "CambTranslationTool_run ts input src tgt formality w = (Inl (ApiError sc body), w')"
    by (simp add: run_api_error)
  from a show "CambTranslationTool_arun ts input src tgt formality w = (Inl (ApiError sc body), w')"
    by (simp add: arun_api_error)
qed


text \<open>Status 200 with the text as body; status 500; status 200 with an empty body.\<close>

theorem translation_success_via_error_channel_witness:
  "raising_stream (ApiError (Some 200) (PStr ''Hola'')) (translation_kwargs ''Hello'' 1 2 PNone) 0
      = (Inl (ApiError (Some 200) (PStr ''Hola'')), 1)
   \<and> CambTranslationTool_run (raising_stream (ApiError (Some 200) (PStr ''Hola'')))
        ''Hello'' 1 2 PNone 0 = (Inr (PStr ''Hola''), 1)
   \<and> CambTranslationTool_arun (raising_stream (ApiError (Some 200) (PStr ''Hola'')))
        ''Hello'' 1 2 PNone 0 = (Inr (PStr ''Hola''), 1)
   \<and> CambTranslationTool_run (raising_stream (ApiError (Some 500) (PStr ''boom'')))
        ''Hello'' 1 2 PNone 0 = (Inl (ApiError (Some 500) (PStr ''boom'')), 1)
   \<and> CambTranslationTool_arun (raising_stream (ApiError (Some 200) (PStr '''')))
        ''Hello'' 1 2 PNone 0 = (Inl (ApiError (Some 200) (PStr '''')), 1)"
  using translation_success_via_error_channel
          [where ts = "raising_stream (ApiError (Some 200) (PStr ''Hola''))"
             and input = "''Hello''" and src = 1 and tgt = 2 and formality = PNone and w = 0
             and body = "PStr ''Hola''" and w' = 1 and s = "''Hola''"]
        translation_success_via_error_channel
          [where ts = "raising_stream (ApiError (Some 500) (PStr ''boom''))"
             and input = "''Hello''" and src = 1 and tgt = 2 and formality = PNone and w = 0
             and sc = "Some 500" and body = "PStr ''boom''" and w' = 1]
        translation_success_via_error_channel
          [where ts = "raising_stream (ApiError (Some 200) (PStr ''''))"
             and input = "''Hello''" and src = 1 and tgt = 2 and formality = PNone and w = 0
             and sc = "Some 200" and body = "PStr ''''" and w' = 1]
  by (simp add: raising_stream_def)
end
